theory Spec2Isabelle
  imports Complex_Main
begin

section \<open>Python strings\<close>

text \<open>
  A Python \<open>str\<close> is a sequence of Unicode code points, and the program's texts are Russian,
  so a string is modelled as the list of its code points: \<open>length\<close>, slicing and
  \<open>strip\<close> count code points, as Python does. ASCII literals of the source are written
  with \<open>ascii\<close>; every other literal is given by its code points, with the source line.
\<close>

type_synonym ustr = "nat list"

definition ascii :: "string \<Rightarrow> ustr" where
  "ascii s = map of_char s"

text \<open>
  The characters \<open>str.isspace\<close> accepts, which \<open>str.strip()\<close> without an argument
  removes: the ASCII controls 9 to 13 and 28 to 31, the space, U+0085, U+00A0, U+1680,
  U+2000 to U+200A, U+2028, U+2029, U+202F, U+205F and U+3000.
\<close>

definition py_isspace :: "nat \<Rightarrow> bool" where
  "py_isspace c \<longleftrightarrow>
     (9 \<le> c \<and> c \<le> 13) \<or> (28 \<le> c \<and> c \<le> 32) \<or> c = 133 \<or> c = 160 \<or> c = 5760 \<or>
     (8192 \<le> c \<and> c \<le> 8202) \<or> c = 8232 \<or> c = 8233 \<or> c = 8239 \<or> c = 8287 \<or> c = 12288"

definition strip_by :: "(nat \<Rightarrow> bool) \<Rightarrow> ustr \<Rightarrow> ustr" where
  "strip_by P s = rev (dropWhile P (rev (dropWhile P s)))"

text \<open>\<open>s.strip()\<close> and \<open>s.strip(chars)\<close>.\<close>

definition strip :: "ustr \<Rightarrow> ustr" where
  "strip s = strip_by py_isspace s"

definition strip_chars :: "ustr \<Rightarrow> ustr \<Rightarrow> ustr" where
  "strip_chars chars s = strip_by (\<lambda>c. c \<in> set chars) s"

text \<open>\<open>s.replace(old, new)\<close> for one-character \<open>old\<close> and \<open>new\<close>, the only use in the source.\<close>

definition replace :: "nat \<Rightarrow> nat \<Rightarrow> ustr \<Rightarrow> ustr" where
  "replace old new s = map (\<lambda>c. if c = old then new else c) s"

text \<open>\<open>s.split(sep)\<close> for a one-character separator: never an empty list.\<close>

fun split :: "nat \<Rightarrow> ustr \<Rightarrow> ustr list" where
  "split sep [] = [[]]"
| "split sep (c # cs) =
     (if c = sep then [] # split sep cs
      else (case split sep cs of [] \<Rightarrow> [[c]] | part # parts \<Rightarrow> (c # part) # parts))"

text \<open>
  \<open>re.split\<close> on a pattern \<open>[...]+\<close>, a non-empty run of characters of a class: the
  pieces between the maximal runs, empty pieces at either end included.
\<close>

function re_split :: "(nat \<Rightarrow> bool) \<Rightarrow> ustr \<Rightarrow> ustr list" where
  "re_split cls [] = [[]]"
| "re_split cls (c # cs) =
     (if cls c then [] # re_split cls (dropWhile cls cs)
      else (case re_split cls cs of [] \<Rightarrow> [[c]] | part # parts \<Rightarrow> (c # part) # parts))"
  by pat_completeness auto
termination
  by (relation "measure (\<lambda>(cls, s). length s)")
     (auto simp: le_imp_less_Suc length_dropWhile_le)

text \<open>\<open>s[:-n]\<close>: the string without its last \<open>n\<close> characters, empty when it has fewer.\<close>

definition drop_last :: "nat \<Rightarrow> ustr \<Rightarrow> ustr" where
  "drop_last n s = take (length s - n) s"

section \<open>Errors\<close>

datatype error = ValueError | KeyError ustr | TypeError

definition err_bind :: "error + 'a \<Rightarrow> ('a \<Rightarrow> error + 'b) \<Rightarrow> error + 'b" where
  "err_bind r f = (case r of Inl e \<Rightarrow> Inl e | Inr v \<Rightarrow> f v)"

text \<open>\<open>d[key]\<close> on a dictionary: \<open>KeyError\<close> when the key is absent.\<close>

definition getitem :: "(ustr \<rightharpoonup> 'v) \<Rightarrow> ustr \<Rightarrow> error + 'v" where
  "getitem d k = (case d k of None \<Rightarrow> Inl (KeyError k) | Some v \<Rightarrow> Inr v)"

section \<open>Localization helpers\<close>

text \<open>The dictionary \<open>MONTHS\<close> (source lines 25 to 38), in the order it is written.\<close>

definition MONTHS :: "(ustr \<times> ustr) list" where
  "MONTHS = [
    (ascii ''01'', [1103, 1085, 1074, 1072, 1088, 1103]),
    (ascii ''02'', [1092, 1077, 1074, 1088, 1072, 1083, 1103]),
    (ascii ''03'', [1084, 1072, 1088, 1090, 1072]),
    (ascii ''04'', [1072, 1087, 1088, 1077, 1083, 1103]),
    (ascii ''05'', [1084, 1072, 1103]),
    (ascii ''06'', [1080, 1102, 1085, 1103]),
    (ascii ''07'', [1080, 1102, 1083, 1103]),
    (ascii ''08'', [1072, 1074, 1075, 1091, 1089, 1090, 1072]),
    (ascii ''09'', [1089, 1077, 1085, 1090, 1103, 1073, 1088, 1103]),
    (ascii ''10'', [1086, 1082, 1090, 1103, 1073, 1088, 1103]),
    (ascii ''11'', [1085, 1086, 1103, 1073, 1088, 1103]),
    (ascii ''12'', [1076, 1077, 1082, 1072, 1073, 1088, 1103])]"

definition clean :: "ustr \<Rightarrow> ustr" where
  "clean text = strip (replace 160 32 (replace 8232 10 text))"

text \<open>
  \<open>format_ru_date\<close>: unpacking the split into three names raises \<open>ValueError\<close> unless
  there are exactly three parts, and \<open>MONTHS[month]\<close> raises \<open>KeyError\<close> on any other
  month code. The literals are U+00AB, U+00BB with a space, and a space with the word for
  "of the year" (source line 47).
\<close>

definition format_ru_date :: "ustr \<Rightarrow> error + ustr" where
  "format_ru_date date_ddmmyyyy =
     (case split 46 date_ddmmyyyy of
        [day, month, year] \<Rightarrow>
          (case map_of MONTHS month of
             None \<Rightarrow> Inl (KeyError month)
           | Some name \<Rightarrow>
               Inr ([171] @ day @ [187, 32] @ name @ [32] @ year @ [32, 1075, 1086, 1076, 1072]))
      | _ \<Rightarrow> Inl ValueError)"

text \<open>The two label selectors (source lines 153 to 158): the agent forms, else the plain ones.\<close>

definition agreement_label_dative :: "ustr \<Rightarrow> ustr" where
  "agreement_label_dative kind =
     (if kind = ascii ''agent''
      then [1072, 1075, 1077, 1085, 1090, 1089, 1082, 1086, 1084, 1091, 32,
            1076, 1086, 1075, 1086, 1074, 1086, 1088, 1091]
      else [1076, 1086, 1075, 1086, 1074, 1086, 1088, 1091])"

definition agreement_label_genitive :: "ustr \<Rightarrow> ustr" where
  "agreement_label_genitive kind =
     (if kind = ascii ''agent''
      then [1072, 1075, 1077, 1085, 1090, 1089, 1082, 1086, 1075, 1086, 32,
            1076, 1086, 1075, 1086, 1074, 1086, 1088, 1072]
      else [1076, 1086, 1075, 1086, 1074, 1086, 1088, 1072])"

section \<open>Template extractor\<close>

text \<open>
  The fallback texts of \<open>extract_template_blocks\<close> (source lines 57 to 92), one per key,
  named after the key.
\<close>

definition fallback_h1 :: ustr where
  "fallback_h1 =
     [49, 46, 32, 1055, 1088, 1077, 1076, 1084, 1077, 1090, 32, 1089, 1086, 1075, 1083,
     1072, 1096, 1077, 1085, 1080, 1103]"

definition fallback_p12 :: ustr where
  "fallback_p12 =
     [49, 46, 50, 46, 32, 1059, 1089, 1083, 1091, 1075, 1080, 32, 1087, 1086, 32, 1089,
     1086, 1087, 1088, 1086, 1074, 1086, 1078, 1076, 1077, 1085, 1080, 1102, 32, 1086, 1073,
     1103, 1079, 1072, 1090, 1077, 1083, 1100, 1085, 1086, 1081, 32, 1084, 1072, 1088, 1082,
     1080, 1088, 1086, 1074, 1082, 1080, 32, 1088, 1077, 1082, 1083, 1072, 1084, 1099, 32,
     1074, 1082, 1083, 1102, 1095, 1072, 1102, 1090, 58]"

definition fallback_bullets :: ustr where
  "fallback_bullets =
     [8212, 32, 1072, 1076, 1084, 1080, 1085, 1080, 1089, 1090, 1088, 1080, 1088, 1086,
     1074, 1072, 1085, 1080, 1077, 32, 1088, 1072, 1079, 1084, 1077, 1097, 1077, 1085, 1080,
     1081, 44, 32, 1087, 1086, 1076, 1083, 1077, 1078, 1072, 1097, 1080, 1093, 32, 1086,
     1073, 1103, 1079, 1072, 1090, 1077, 1083, 1100, 1085, 1086, 1081, 32, 1084, 1072, 1088,
     1082, 1080, 1088, 1086, 1074, 1082, 1077, 59, 10, 8212, 32, 1074, 1079, 1072, 1080,
     1084, 1086, 1076, 1077, 1081, 1089, 1090, 1074, 1080, 1077, 32, 1089, 32, 1088, 1077,
     1082, 1083, 1072, 1084, 1085, 1086, 1081, 32, 1087, 1083, 1072, 1090, 1092, 1086, 1088,
     1084, 1086, 1081, 59, 10, 8212, 32, 1082, 1086, 1085, 1090, 1088, 1086, 1083, 1100, 32,
     1082, 1086, 1088, 1088, 1077, 1082, 1090, 1085, 1086, 1089, 1090, 1080, 32, 1087, 1077,
     1088, 1077, 1076, 1072, 1095, 1080, 32, 1076, 1072, 1085, 1085, 1099, 1093, 59, 10,
     8212, 32, 1092, 1086, 1088, 1084, 1080, 1088, 1086, 1074, 1072, 1085, 1080, 1077, 32,
     1080, 32, 1089, 1074, 1077, 1088, 1082, 1091, 32, 1086, 1090, 1095, 1105, 1090, 1085,
     1086, 1089, 1090, 1080, 32, 1087, 1086, 32, 1084, 1072, 1088, 1082, 1080, 1088, 1091,
     1077, 1084, 1086, 1081, 32, 1088, 1077, 1082, 1083, 1072, 1084, 1077, 46]"

definition fallback_h2 :: ustr where
  "fallback_h2 =
     [50, 46, 32, 1057, 1090, 1086, 1080, 1084, 1086, 1089, 1090, 1100, 32, 1091, 1089,
     1083, 1091, 1075, 32, 1080, 32, 1087, 1086, 1088, 1103, 1076, 1086, 1082, 32, 1088,
     1072, 1089, 1095, 1105, 1090, 1086, 1074]"

definition fallback_p21 :: ustr where
  "fallback_p21 =
     [50, 46, 49, 46, 32, 1057, 1090, 1086, 1080, 1084, 1086, 1089, 1090, 1100, 32, 1059,
     1089, 1083, 1091, 1075, 32, 1084, 1072, 1088, 1082, 1080, 1088, 1086, 1074, 1082, 1080,
     32, 1089, 1086, 1089, 1090, 1072, 1074, 1083, 1103, 1077, 1090, 32, 51, 37, 32, 1086,
     1090, 32, 1086, 1073, 1098, 1105, 1084, 1072, 32, 1088, 1072, 1079, 1084, 1077, 1097,
     1077, 1085, 1080, 1081, 44, 32, 1087, 1086, 1076, 1083, 1077, 1078, 1072, 1097, 1080,
     1093, 32, 1086, 1073, 1103, 1079, 1072, 1090, 1077, 1083, 1100, 1085, 1086, 1081, 32,
     1084, 1072, 1088, 1082, 1080, 1088, 1086, 1074, 1082, 1077, 32, 40, 1079, 1072, 32,
     1080, 1089, 1082, 1083, 1102, 1095, 1077, 1085, 1080, 1077, 1084, 32, 1087, 1086, 1080,
     1089, 1082, 1086, 1074, 1099, 1093, 32, 1088, 1072, 1079, 1084, 1077, 1097, 1077, 1085,
     1080, 1081, 41, 44, 32, 1089, 1086, 1075, 1083, 1072, 1089, 1085, 1086, 32, 1086, 1092,
     1080, 1094, 1080, 1072, 1083, 1100, 1085, 1099, 1084, 32, 1076, 1072, 1085, 1085, 1099,
     1084, 32, 1088, 1077, 1082, 1083, 1072, 1084, 1085, 1086, 1081, 32, 1087, 1083, 1072,
     1090, 1092, 1086, 1088, 1084, 1099, 46]"

definition fallback_p22 :: ustr where
  "fallback_p22 =
     [50, 46, 50, 46, 32, 1056, 1072, 1089, 1095, 1105, 1090, 32, 1089, 1090, 1086, 1080,
     1084, 1086, 1089, 1090, 1080, 32, 1087, 1088, 1086, 1080, 1079, 1074, 1086, 1076, 1080,
     1090, 1089, 1103, 32, 1085, 1072, 32, 1086, 1089, 1085, 1086, 1074, 1072, 1085, 1080,
     1080, 32, 1086, 1090, 1095, 1105, 1090, 1072, 32, 1087, 1083, 1072, 1090, 1092, 1086,
     1088, 1084, 1099, 44, 32, 1092, 1086, 1088, 1084, 1080, 1088, 1091, 1077, 1084, 1086,
     1075, 1086, 32, 1074, 32, 1084, 1077, 1089, 1103, 1094, 1077, 44, 32, 1089, 1083, 1077,
     1076, 1091, 1102, 1097, 1077, 1084, 32, 1079, 1072, 32, 1086, 1090, 1095, 1105, 1090,
     1085, 1099, 1084, 46]"

definition fallback_p23 :: ustr where
  "fallback_p23 =
     [50, 46, 51, 46, 32, 1042, 32, 1089, 1083, 1091, 1095, 1072, 1077, 32, 1082, 1086,
     1088, 1088, 1077, 1082, 1090, 1080, 1088, 1086, 1074, 1086, 1082, 32, 1087, 1083, 1072,
     1090, 1092, 1086, 1088, 1084, 1099, 32, 1087, 1077, 1088, 1077, 1088, 1072, 1089, 1095,
     1105, 1090, 32, 1089, 1090, 1086, 1080, 1084, 1086, 1089, 1090, 1080, 32, 1087, 1088,
     1086, 1080, 1079, 1074, 1086, 1076, 1080, 1090, 1089, 1103, 32, 1074, 32, 1089, 1083,
     1077, 1076, 1091, 1102, 1097, 1077, 1084, 32, 1086, 1090, 1095, 1105, 1090, 1085, 1086,
     1084, 32, 1087, 1077, 1088, 1080, 1086, 1076, 1077, 46]"

definition fallback_h3 :: ustr where
  "fallback_h3 =
     [51, 46, 32, 1057, 1088, 1086, 1082, 1080, 32, 1086, 1087, 1083, 1072, 1090, 1099]"

definition fallback_p31 :: ustr where
  "fallback_p31 =
     [51, 46, 49, 46, 32, 1055, 1088, 1080, 1085, 1094, 1080, 1087, 1072, 1083, 32, 1086,
     1073, 1103, 1079, 1091, 1077, 1090, 1089, 1103, 32, 1086, 1087, 1083, 1072, 1090, 1080,
     1090, 1100, 32, 1089, 1091, 1084, 1084, 1091, 44, 32, 1088, 1072, 1089, 1089, 1095,
     1080, 1090, 1072, 1085, 1085, 1091, 1102, 32, 1087, 1086, 32, 1087, 46, 50, 46, 50, 44,
     32, 1074, 32, 1090, 1077, 1095, 1077, 1085, 1080, 1077, 32, 49, 48, 32, 1082, 1072,
     1083, 1077, 1085, 1076, 1072, 1088, 1085, 1099, 1093, 32, 1076, 1085, 1077, 1081, 32,
     1089, 32, 1084, 1086, 1084, 1077, 1085, 1090, 1072, 32, 1074, 1099, 1089, 1090, 1072,
     1074, 1083, 1077, 1085, 1080, 1103, 32, 1040, 1075, 1077, 1085, 1090, 1086, 1084, 32,
     1089, 1095, 1105, 1090, 1072, 32, 1085, 1072, 32, 1086, 1087, 1083, 1072, 1090, 1091,
     46]"

definition fallback_p32 :: ustr where
  "fallback_p32 =
     [51, 46, 50, 46, 32, 1054, 1087, 1083, 1072, 1090, 1072, 32, 1087, 1088, 1086, 1080,
     1079, 1074, 1086, 1076, 1080, 1090, 1089, 1103, 32, 1085, 1072, 32, 1088, 1072, 1089,
     1095, 1105, 1090, 1085, 1099, 1081, 32, 1089, 1095, 1105, 1090, 32, 1040, 1075, 1077,
     1085, 1090, 1072, 44, 32, 1091, 1082, 1072, 1079, 1072, 1085, 1085, 1099, 1081, 32,
     1074, 32, 1044, 1086, 1075, 1086, 1074, 1086, 1088, 1077, 44, 32, 1089, 32, 1086, 1073,
     1103, 1079, 1072, 1090, 1077, 1083, 1100, 1085, 1086, 1081, 32, 1089, 1089, 1099, 1083,
     1082, 1086, 1081, 32, 1085, 1072, 32, 1085, 1086, 1084, 1077, 1088, 32, 1080, 32, 1076,
     1072, 1090, 1091, 32, 1085, 1072, 1089, 1090, 1086, 1103, 1097, 1077, 1075, 1086, 32,
     1044, 1086, 1087, 1086, 1083, 1085, 1080, 1090, 1077, 1083, 1100, 1085, 1086, 1075,
     1086, 32, 1089, 1086, 1075, 1083, 1072, 1096, 1077, 1085, 1080, 1103, 46]"

definition fallback_h4 :: ustr where
  "fallback_h4 =
     [52, 46, 32, 1055, 1088, 1086, 1095, 1080, 1077, 32, 1091, 1089, 1083, 1086, 1074,
     1080, 1103]"

definition fallback_p41 :: ustr where
  "fallback_p41 =
     [52, 46, 49, 46, 32, 1053, 1072, 1089, 1090, 1086, 1103, 1097, 1077, 1077, 32, 1044,
     1086, 1087, 1086, 1083, 1085, 1080, 1090, 1077, 1083, 1100, 1085, 1086, 1077, 32, 1089,
     1086, 1075, 1083, 1072, 1096, 1077, 1085, 1080, 1077, 32, 1103, 1074, 1083, 1103, 1077,
     1090, 1089, 1103, 32, 1085, 1077, 1086, 1090, 1098, 1077, 1084, 1083, 1077, 1084, 1086,
     1081, 32, 1095, 1072, 1089, 1090, 1100, 1102, 32, 1044, 1086, 1075, 1086, 1074, 1086,
     1088, 1072, 46]"

definition fallback_p42 :: ustr where
  "fallback_p42 =
     [52, 46, 50, 46, 32, 1042, 1089, 1077, 32, 1086, 1089, 1090, 1072, 1083, 1100, 1085,
     1099, 1077, 32, 1091, 1089, 1083, 1086, 1074, 1080, 1103, 32, 1044, 1086, 1075, 1086,
     1074, 1086, 1088, 1072, 32, 1086, 1089, 1090, 1072, 1102, 1090, 1089, 1103, 32, 1073,
     1077, 1079, 32, 1080, 1079, 1084, 1077, 1085, 1077, 1085, 1080, 1081, 32, 1080, 32,
     1089, 1086, 1093, 1088, 1072, 1085, 1103, 1102, 1090, 32, 1089, 1080, 1083, 1091, 46]"

definition fallback_p43 :: ustr where
  "fallback_p43 =
     [52, 46, 51, 46, 32, 1053, 1072, 1089, 1090, 1086, 1103, 1097, 1077, 1077, 32, 1044,
     1086, 1087, 1086, 1083, 1085, 1080, 1090, 1077, 1083, 1100, 1085, 1086, 1077, 32, 1089,
     1086, 1075, 1083, 1072, 1096, 1077, 1085, 1080, 1077, 32, 1074, 1089, 1090, 1091, 1087,
     1072, 1077, 1090, 32, 1074, 32, 1089, 1080, 1083, 1091, 32, 1089, 32, 1084, 1086, 1084,
     1077, 1085, 1090, 1072, 32, 1087, 1086, 1076, 1087, 1080, 1089, 1072, 1085, 1080, 1103,
     32, 1086, 1073, 1077, 1080, 1084, 1080, 32, 1089, 1090, 1086, 1088, 1086, 1085, 1072,
     1084, 1080, 46]"

definition fallback_h5 :: ustr where
  "fallback_h5 =
     [53, 46, 32, 1055, 1086, 1076, 1087, 1080, 1089, 1080, 32, 1089, 1090, 1086, 1088,
     1086, 1085]"

text \<open>
  \<open>extract_template_blocks\<close>, applied to the texts of the paragraphs of the reference
  document (opening the file is left to the caller). Each key reads one index of the
  cleaned paragraphs, guarded by the length as in the source.
\<close>

definition extract_template_blocks :: "ustr list \<Rightarrow> (ustr \<rightharpoonup> ustr)" where
  "extract_template_blocks paragraph_texts =
     (let p = map clean paragraph_texts in
      [ascii ''h1'' \<mapsto> (if length p > 6 then p ! 6 else fallback_h1),
       ascii ''p12'' \<mapsto> (if length p > 8 then p ! 8 else fallback_p12),
       ascii ''bullets'' \<mapsto> (if length p > 9 then p ! 9 else fallback_bullets),
       ascii ''h2'' \<mapsto> (if length p > 10 then p ! 10 else fallback_h2),
       ascii ''p21'' \<mapsto> (if length p > 11 then p ! 11 else fallback_p21),
       ascii ''p22'' \<mapsto> (if length p > 12 then p ! 12 else fallback_p22),
       ascii ''p23'' \<mapsto> (if length p > 13 then p ! 13 else fallback_p23),
       ascii ''h3'' \<mapsto> (if length p > 14 then p ! 14 else fallback_h3),
       ascii ''p31'' \<mapsto> (if length p > 15 then p ! 15 else fallback_p31),
       ascii ''p32'' \<mapsto> (if length p > 16 then p ! 16 else fallback_p32),
       ascii ''h4'' \<mapsto> (if length p > 17 then p ! 17 else fallback_h4),
       ascii ''p41'' \<mapsto> (if length p > 18 then p ! 18 else fallback_p41),
       ascii ''p42'' \<mapsto> (if length p > 19 then p ! 19 else fallback_p42),
       ascii ''p43'' \<mapsto> (if length p > 20 then p ! 20 else fallback_p43),
       ascii ''h5'' \<mapsto> (if length p > 21 then p ! 21 else fallback_h5)])"

section \<open>Output document\<close>

text \<open>
  The part of the document library's object model that the program writes: a document is
  its section margins, the font of its \<open>Normal\<close> style and its paragraphs; a paragraph is
  its format and its runs. A property the program never sets is \<open>None\<close>. Lengths keep
  the unit and the number the source assigns (\<open>Cm(1.25)\<close>, \<open>Pt(12)\<close>); the program does
  no arithmetic on them, nor on the line spacing \<open>1.15\<close>.
\<close>

datatype alignment = LEFT | CENTER | JUSTIFY

datatype tab_alignment = TAB_LEFT | TAB_RIGHT

datatype length = Cm rat | Pt int

record run =
  run_text :: ustr
  run_bold :: "bool option"
  font_name :: "ustr option"
  font_size :: "length option"

record para =
  alignment :: "alignment option"
  space_before :: "length option"
  space_after :: "length option"
  line_spacing :: "rat option"
  first_line_indent :: "length option"
  tab_stops :: "(length \<times> tab_alignment) list"
  runs :: "run list"

record document =
  left_margin :: "length option"
  right_margin :: "length option"
  top_margin :: "length option"
  bottom_margin :: "length option"
  normal_font_name :: "ustr option"
  normal_font_size :: "length option"
  paragraphs :: "para list"

text \<open>\<open>paragraph.text\<close>: the texts of the runs, concatenated.\<close>

definition paragraph_text :: "para \<Rightarrow> ustr" where
  "paragraph_text p = concat (map run_text (runs p))"

text \<open>
  Assigning \<open>Pt(n)\<close> to a spacing or to a font size. The library keeps such a length as an
  unsigned measure and checks its value in English Metric Units, \<open>n * 12700\<close>, against the
  range from 0 to \<open>2 ^ 64 - 1\<close>: outside it the assignment raises \<open>ValueError\<close>. The
  lengths the source assigns as constants (\<open>Pt(8)\<close>, \<open>Pt(12)\<close>, the \<open>Cm\<close> values) are in
  the range and are written without the check.
\<close>

definition pt_ok :: "int \<Rightarrow> bool" where
  "pt_ok n \<longleftrightarrow> 0 \<le> n * 12700 \<and> n * 12700 \<le> 18446744073709551615"

definition set_pt :: "int \<Rightarrow> error + length" where
  "set_pt n = (if pt_ok n then Inr (Pt n) else Inl ValueError)"

text \<open>
  The text of a run. The library turns a tab into a tab element and a line feed or a
  carriage return into a line break, and hands every other character to the XML tree,
  which raises \<open>ValueError\<close> on a character XML cannot hold: a control character below
  U+0020, a surrogate, U+FFFE or U+FFFF. Read back, a tab is a tab and a line break is a
  line feed, so a carriage return comes back as a line feed.
\<close>

definition xml_char :: "nat \<Rightarrow> bool" where
  "xml_char c \<longleftrightarrow> c = 9 \<or> c = 10 \<or> c = 13 \<or> (32 \<le> c \<and> c \<le> 55295) \<or>
     (57344 \<le> c \<and> c \<le> 65533) \<or> (65536 \<le> c \<and> c \<le> 1114111)"

definition xml_text :: "ustr \<Rightarrow> bool" where
  "xml_text t = list_all xml_char t"

definition stored_text :: "ustr \<Rightarrow> ustr" where
  "stored_text t = map (\<lambda>c. if c = 13 then 10 else c) t"

text \<open>\<open>Document()\<close>: the library's empty document, with no paragraph.\<close>

definition new_document :: document where
  "new_document = \<lparr>left_margin = None, right_margin = None, top_margin = None,
     bottom_margin = None, normal_font_name = None, normal_font_size = None,
     paragraphs = []\<rparr>"

text \<open>The paragraph \<open>doc.add_paragraph()\<close> appends, and the run \<open>p.add_run(text)\<close> appends.\<close>

definition new_paragraph :: para where
  "new_paragraph = \<lparr>alignment = None, space_before = None, space_after = None,
     line_spacing = None, first_line_indent = None, tab_stops = [], runs = []\<rparr>"

definition new_run :: "ustr \<Rightarrow> error + run" where
  "new_run t =
     (if xml_text t
      then Inr \<lparr>run_text = stored_text t, run_bold = None, font_name = None, font_size = None\<rparr>
      else Inl ValueError)"

definition times_new_roman :: ustr where
  "times_new_roman = ascii ''Times New Roman''"

definition set_doc_defaults :: "document \<Rightarrow> document" where
  "set_doc_defaults doc =
     doc\<lparr>left_margin := Some (Cm 2), right_margin := Some (Cm 2),
         top_margin := Some (Cm 2), bottom_margin := Some (Cm 2),
         normal_font_name := Some times_new_roman, normal_font_size := Some (Pt 12)\<rparr>"

text \<open>
  The keyword parameters of \<open>add_para\<close> with their defaults (source lines 114 to 119);
  the parameter \<open>size\<close> is the field \<open>size_pt\<close>.
\<close>

record para_kw =
  align :: alignment
  bold :: bool
  size_pt :: int
  before :: int
  after :: int
  first_indent :: bool

definition add_para_defaults :: para_kw where
  "add_para_defaults = \<lparr>align = JUSTIFY, bold = False, size_pt = 12, before = 0, after = 6,
     first_indent = True\<rparr>"

text \<open>
  \<open>add_para\<close> (source lines 121 to 133), in the order of its statements: the two spacings,
  the run and the font size can raise.
\<close>

definition add_para :: "document \<Rightarrow> ustr \<Rightarrow> para_kw \<Rightarrow> error + document" where
  "add_para doc t kw =
     (let p = new_paragraph;
          p = p\<lparr>alignment := Some (align kw)\<rparr>
      in
      err_bind (set_pt (before kw)) (\<lambda>space.
      let p = p\<lparr>space_before := Some space\<rparr> in
      err_bind (set_pt (after kw)) (\<lambda>space.
      let p = p\<lparr>space_after := Some space\<rparr>;
          p = p\<lparr>line_spacing := Some (115 / 100)\<rparr>;
          p = (if first_indent kw then p\<lparr>first_line_indent := Some (Cm (125 / 100))\<rparr> else p)
      in
      err_bind (new_run t) (\<lambda>r.
      let r = r\<lparr>run_bold := Some (bold kw), font_name := Some times_new_roman\<rparr> in
      err_bind (set_pt (size_pt kw)) (\<lambda>sz.
      let r = r\<lparr>font_size := Some sz\<rparr>;
          p = p\<lparr>runs := runs p @ [r]\<rparr>
      in Inr (doc\<lparr>paragraphs := paragraphs doc @ [p]\<rparr>))))))"

text \<open>The keyword parameters of \<open>add_two_col\<close> with their defaults (source line 136).\<close>

record two_col_kw =
  col_bold :: bool
  col_after :: int

definition add_two_col_defaults :: two_col_kw where
  "add_two_col_defaults = \<lparr>col_bold = False, col_after = 3\<rparr>"

text \<open>
  \<open>add_two_col\<close> (source lines 137 to 150): the spacing and the three runs can raise.
\<close>

definition add_two_col :: "document \<Rightarrow> ustr \<Rightarrow> ustr \<Rightarrow> two_col_kw \<Rightarrow> error + document" where
  "add_two_col doc left right kw =
     (let p = new_paragraph;
          p = p\<lparr>alignment := Some LEFT\<rparr>
      in
      err_bind (set_pt (col_after kw)) (\<lambda>space.
      let p = p\<lparr>space_after := Some space\<rparr>;
          p = p\<lparr>line_spacing := Some (115 / 100)\<rparr>;
          p = p\<lparr>tab_stops := tab_stops p @ [(Cm (88 / 10), TAB_LEFT)]\<rparr>
      in
      err_bind (new_run left) (\<lambda>l.
      err_bind (new_run [9]) (\<lambda>tab.
      err_bind (new_run right) (\<lambda>r.
      let styled = (\<lambda>r. r\<lparr>run_bold := Some (col_bold kw), font_name := Some times_new_roman,
                            font_size := Some (Pt 12)\<rparr>);
          p = p\<lparr>runs := runs p @ [styled l, tab, styled r]\<rparr>
      in Inr (doc\<lparr>paragraphs := paragraphs doc @ [p]\<rparr>))))))"

text \<open>
  A call with keyword arguments. The keyword arguments are the options a paragraph
  construction may be asked for: the six parameters of \<open>add_para\<close>, each with a value of
  its type, and \<open>line_spacing\<close>. As Python binds a call, a keyword that is not a
  parameter of the called function, or a keyword given twice, raises \<open>TypeError\<close> before
  the body runs; every parameter not given keeps its default.
\<close>

datatype kwarg =
  Align alignment | Bold bool | Size int | Before int | After int | First_indent bool
  | Line_spacing rat

fun kw_name :: "kwarg \<Rightarrow> string" where
  "kw_name (Align a) = ''align''"
| "kw_name (Bold b) = ''bold''"
| "kw_name (Size n) = ''size''"
| "kw_name (Before n) = ''before''"
| "kw_name (After n) = ''after''"
| "kw_name (First_indent b) = ''first_indent''"
| "kw_name (Line_spacing x) = ''line_spacing''"

fun bind_para_kw :: "kwarg \<Rightarrow> para_kw \<Rightarrow> error + para_kw" where
  "bind_para_kw (Align a) kw = Inr (kw\<lparr>align := a\<rparr>)"
| "bind_para_kw (Bold b) kw = Inr (kw\<lparr>bold := b\<rparr>)"
| "bind_para_kw (Size n) kw = Inr (kw\<lparr>size_pt := n\<rparr>)"
| "bind_para_kw (Before n) kw = Inr (kw\<lparr>before := n\<rparr>)"
| "bind_para_kw (After n) kw = Inr (kw\<lparr>after := n\<rparr>)"
| "bind_para_kw (First_indent b) kw = Inr (kw\<lparr>first_indent := b\<rparr>)"
| "bind_para_kw (Line_spacing x) kw = Inl TypeError"

fun bind_two_col_kw :: "kwarg \<Rightarrow> two_col_kw \<Rightarrow> error + two_col_kw" where
  "bind_two_col_kw (Bold b) kw = Inr (kw\<lparr>col_bold := b\<rparr>)"
| "bind_two_col_kw (After n) kw = Inr (kw\<lparr>col_after := n\<rparr>)"
| "bind_two_col_kw (Align a) kw = Inl TypeError"
| "bind_two_col_kw (Size n) kw = Inl TypeError"
| "bind_two_col_kw (Before n) kw = Inl TypeError"
| "bind_two_col_kw (First_indent b) kw = Inl TypeError"
| "bind_two_col_kw (Line_spacing x) kw = Inl TypeError"

fun bind_all :: "(kwarg \<Rightarrow> 'k \<Rightarrow> error + 'k) \<Rightarrow> kwarg list \<Rightarrow> 'k \<Rightarrow> error + 'k" where
  "bind_all b [] kw = Inr kw"
| "bind_all b (x # xs) kw = err_bind (b x kw) (bind_all b xs)"

definition call_add_para :: "document \<Rightarrow> ustr \<Rightarrow> kwarg list \<Rightarrow> error + document" where
  "call_add_para doc t kwargs =
     (if distinct (map kw_name kwargs)
      then err_bind (bind_all bind_para_kw kwargs add_para_defaults) (add_para doc t)
      else Inl TypeError)"

definition call_add_two_col ::
    "document \<Rightarrow> ustr \<Rightarrow> ustr \<Rightarrow> kwarg list \<Rightarrow> error + document" where
  "call_add_two_col doc left right kwargs =
     (if distinct (map kw_name kwargs)
      then err_bind (bind_all bind_two_col_kw kwargs add_two_col_defaults)
        (add_two_col doc left right)
      else Inl TypeError)"

section \<open>Renderer\<close>

text \<open>
  The parameters \<open>build_doc\<close> reads from the parsed command line. The reference document
  named by \<open>args.template\<close> is given to the model by the texts of its paragraphs.
\<close>

record namespace =
  ds_no :: ustr
  agreement_kind :: ustr
  agreement_no :: ustr
  agreement_date :: ustr
  sign_date :: ustr
  city :: ustr
  principal_full :: ustr
  principal_short :: ustr
  principal_position_intro :: ustr
  principal_position_sign :: ustr
  principal_signer_full :: ustr
  principal_signer_short :: ustr
  acting_word :: ustr

text \<open>
  The literals of \<open>build_doc\<close> that are not ASCII: of the title (source line 167), of the
  introduction (lines 182 to 187), of paragraph 1.1 (lines 192 to 195) and of the signature
  block (lines 221 to 225).
\<close>

definition title_prefix :: ustr where
  "title_prefix =
     [1044, 1086, 1087, 1086, 1083, 1085, 1080, 1090, 1077, 1083, 1100, 1085, 1086, 1077,
     32, 1089, 1086, 1075, 1083, 1072, 1096, 1077, 1085, 1080, 1077, 32, 8470, 32]"

definition intro_agent :: ustr where
  "intro_agent =
     [1048, 1085, 1076, 1080, 1074, 1080, 1076, 1091, 1072, 1083, 1100, 1085, 1099, 1081,
     32, 1087, 1088, 1077, 1076, 1087, 1088, 1080, 1085, 1080, 1084, 1072, 1090, 1077, 1083,
     1100, 32, 1047, 1072, 1084, 1103, 1090, 1080, 1085, 32, 1053, 1080, 1082, 1086, 1083,
     1072, 1081, 32, 1043, 1088, 1080, 1075, 1086, 1088, 1100, 1077, 1074, 1080, 1095, 32,
     40, 1054, 1043, 1056, 1053, 1048, 1055, 32, 51, 49, 51, 53, 57, 48, 52, 51, 51, 57, 48,
     48, 48, 52, 53, 41, 44, 32, 1080, 1084, 1077, 1085, 1091, 1077, 1084, 1099, 1081, 32,
     1074, 32, 1076, 1072, 1083, 1100, 1085, 1077, 1081, 1096, 1077, 1084, 32, 171, 1040,
     1075, 1077, 1085, 1090, 187, 44, 32, 1089, 32, 1086, 1076, 1085, 1086, 1081, 32, 1089,
     1090, 1086, 1088, 1086, 1085, 1099, 44, 32, 1080, 32]"

definition intro_in_person :: ustr where
  "intro_in_person =
     [44, 32, 1074, 32, 1083, 1080, 1094, 1077, 32]"

definition intro_basis :: ustr where
  "intro_basis =
     [32, 1085, 1072, 32, 1086, 1089, 1085, 1086, 1074, 1072, 1085, 1080, 1080, 32, 1059,
     1089, 1090, 1072, 1074, 1072, 44, 32, 1080, 1084, 1077, 1085, 1091, 1077, 1084, 1086,
     1077, 44, 32, 1074, 32, 1076, 1072, 1083, 1100, 1085, 1077, 1081, 1096, 1077, 1084, 32,
     171, 1055, 1088, 1080, 1085, 1094, 1080, 1087, 1072, 1083, 187, 44, 32, 1089, 32, 1076,
     1088, 1091, 1075, 1086, 1081, 32, 1089, 1090, 1086, 1088, 1086, 1085, 1099, 44, 32,
     1089, 1086, 1074, 1084, 1077, 1089, 1090, 1085, 1086, 32, 1080, 1084, 1077, 1085, 1091,
     1077, 1084, 1099, 1077, 32, 171, 1057, 1090, 1086, 1088, 1086, 1085, 1099, 187, 44, 32,
     1079, 1072, 1082, 1083, 1102, 1095, 1080, 1083, 1080, 32, 1085, 1072, 1089, 1090, 1086,
     1103, 1097, 1077, 1077, 32, 1044, 1086, 1087, 1086, 1083, 1085, 1080, 1090, 1077, 1083,
     1100, 1085, 1086, 1077, 32, 1089, 1086, 1075, 1083, 1072, 1096, 1077, 1085, 1080, 1077,
     32, 8470]"

definition intro_closing :: ustr where
  "intro_closing =
     [32, 40, 1076, 1072, 1083, 1077, 1077, 32, 45, 32, 1057, 1086, 1075, 1083, 1072, 1096,
     1077, 1085, 1080, 1077, 41, 32, 1086, 32, 1085, 1080, 1078, 1077, 1089, 1083, 1077,
     1076, 1091, 1102, 1097, 1077, 1084, 58]"

definition p11_opening :: ustr where
  "p11_opening =
     [49, 46, 49, 46, 32, 1053, 1072, 1089, 1090, 1086, 1103, 1097, 1077, 1077, 32, 1044,
     1086, 1087, 1086, 1083, 1085, 1080, 1090, 1077, 1083, 1100, 1085, 1086, 1077, 32, 1089,
     1086, 1075, 1083, 1072, 1096, 1077, 1085, 1080, 1077, 32, 1088, 1077, 1075, 1091, 1083,
     1080, 1088, 1091, 1077, 1090, 32, 1087, 1086, 1088, 1103, 1076, 1086, 1082, 32, 1088,
     1072, 1089, 1095, 1105, 1090, 1086, 1074, 32, 1080, 32, 1086, 1082, 1072, 1079, 1072,
     1085, 1080, 1103, 32, 1091, 1089, 1083, 1091, 1075, 32, 1087, 1086, 32, 1089, 1086,
     1087, 1088, 1086, 1074, 1086, 1078, 1076, 1077, 1085, 1080, 1102, 32, 1086, 1073, 1103,
     1079, 1072, 1090, 1077, 1083, 1100, 1085, 1086, 1081, 32, 1084, 1072, 1088, 1082, 1080,
     1088, 1086, 1074, 1082, 1080, 32, 1088, 1077, 1082, 1083, 1072, 1084, 1099, 32, 40,
     1076, 1072, 1083, 1077, 1077, 32, 8212, 32, 171, 1059, 1089, 1083, 1091, 1075, 1080,
     32, 1084, 1072, 1088, 1082, 1080, 1088, 1086, 1074, 1082, 1080, 187, 41, 32, 1074, 32,
     1088, 1072, 1084, 1082, 1072, 1093, 32]"

definition p11_closing :: ustr where
  "p11_closing =
     [32, 1075, 46, 32, 40, 1076, 1072, 1083, 1077, 1077, 32, 8212, 32, 171, 1044, 1086,
     1075, 1086, 1074, 1086, 1088, 187, 41, 46]"

definition sig_principal :: ustr where
  "sig_principal =
     [1055, 1088, 1080, 1085, 1094, 1080, 1087, 1072, 1083]"

definition sig_agent :: ustr where
  "sig_agent =
     [1040, 1075, 1077, 1085, 1090]"

definition sig_agent_name :: ustr where
  "sig_agent_name =
     [1048, 1055, 32, 1047, 1072, 1084, 1103, 1090, 1080, 1085, 32, 1053, 1080, 1082, 1086,
     1083, 1072, 1081, 32, 1043, 1088, 1080, 1075, 1086, 1088, 1100, 1077, 1074, 1080, 1095]"

definition sig_line :: ustr where
  "sig_line =
     [95, 95, 95, 95, 95, 95, 95, 95, 95, 95, 95, 95, 32, 1052, 46, 1055, 46]"

definition sig_agent_short :: ustr where
  "sig_agent_short =
     [1047, 1072, 1084, 1103, 1090, 1080, 1085, 32, 1053, 46, 1043, 46]"
text \<open>
  The bullet items (source line 202): the bullets clause split at runs of line feeds and
  carriage returns, the blank pieces dropped, and the characters space, hyphen-minus,
  U+2014 and tab stripped from both ends of each piece.
\<close>

definition bullet_items :: "ustr \<Rightarrow> ustr list" where
  "bullet_items bullets =
     map (strip_chars [32, 45, 8212, 9])
       (filter (\<lambda>x. strip x \<noteq> []) (re_split (\<lambda>c. c = 10 \<or> c = 13) bullets))"

text \<open>The keyword arguments of the heading calls, the same at the five call sites.\<close>

definition heading_kw :: para_kw where
  "heading_kw = add_para_defaults\<lparr>align := LEFT, bold := True, before := 8, after := 4,
     first_indent := False\<rparr>"

text \<open>The keyword arguments of the body calls: \<open>after\<close> and \<open>first_indent=False\<close>.\<close>

definition body_kw :: "int \<Rightarrow> para_kw" where
  "body_kw n = add_para_defaults\<lparr>after := n, first_indent := False\<rparr>"

text \<open>The loop over the bullet items (source lines 203 and 204).\<close>

fun add_items :: "document \<Rightarrow> ustr list \<Rightarrow> error + document" where
  "add_items doc [] = Inr doc"
| "add_items doc (item # items) =
     err_bind (add_para doc ([8226, 32] @ item) (body_kw 2)) (\<lambda>doc. add_items doc items)"

text \<open>
  \<open>build_doc\<close>, statement by statement. The two calls of \<open>format_ru_date\<close>, the
  dictionary lookups and the construction of every paragraph can raise; nothing in
  \<open>build_doc\<close> catches an exception, so the first error is the result.
\<close>

definition build_doc :: "namespace \<Rightarrow> ustr list \<Rightarrow> error + document" where
  "build_doc args reference =
     (let template = extract_template_blocks reference;
          doc = new_document;
          doc = set_doc_defaults doc;
          title = title_prefix @ ds_no args;
          subtitle = [1082, 32] @ agreement_label_dative (agreement_kind args) @ [32, 8470, 32]
            @ agreement_no args @ [32, 1086, 1090, 32] @ agreement_date args @ [46]
      in
      err_bind (add_para doc title (add_para_defaults\<lparr>align := CENTER, bold := True,
        size_pt := 14, after := 6, first_indent := False\<rparr>)) (\<lambda>doc.
      err_bind (add_para doc subtitle (add_para_defaults\<lparr>align := CENTER, size_pt := 12,
        after := 10, first_indent := False\<rparr>)) (\<lambda>doc.
      let city_line = new_paragraph\<lparr>space_after := Some (Pt 8),
            line_spacing := Some (115 / 100), tab_stops := [(Cm (165 / 10), TAB_RIGHT)]\<rparr>
      in
      err_bind (format_ru_date (sign_date args)) (\<lambda>sign_phrase.
      err_bind (new_run (city args @ [9] @ sign_phrase)) (\<lambda>city_run.
      let city_run = city_run\<lparr>font_name := Some times_new_roman, font_size := Some (Pt 12)\<rparr>;
          city_line = city_line\<lparr>runs := runs city_line @ [city_run]\<rparr>;
          doc = doc\<lparr>paragraphs := paragraphs doc @ [city_line]\<rparr>;
          intro = intro_agent @ principal_full args @ intro_in_person
            @ principal_position_intro args @ [32] @ principal_signer_full args @ [44, 32]
            @ acting_word args @ intro_basis @ ds_no args @ intro_closing
      in
      err_bind (add_para doc intro (add_para_defaults\<lparr>after := 8\<rparr>)) (\<lambda>doc.
      err_bind (format_ru_date (agreement_date args)) (\<lambda>agreement_phrase.
      let p11 = p11_opening @ agreement_label_genitive (agreement_kind args) @ [32, 8470, 8239]
            @ agreement_no args @ [32, 1086, 1090, 32] @ drop_last 5 agreement_phrase
            @ p11_closing
      in
      err_bind (getitem template (ascii ''h1'')) (\<lambda>h1.
      err_bind (add_para doc h1 heading_kw) (\<lambda>doc.
      err_bind (add_para doc p11 (body_kw 4)) (\<lambda>doc.
      err_bind (getitem template (ascii ''p12'')) (\<lambda>p12.
      err_bind (add_para doc p12 (body_kw 3)) (\<lambda>doc.
      err_bind (getitem template (ascii ''bullets'')) (\<lambda>bullets.
      let items = bullet_items bullets in
      err_bind (add_items doc items) (\<lambda>doc.
      err_bind (getitem template (ascii ''h2'')) (\<lambda>h2.
      err_bind (add_para doc h2 heading_kw) (\<lambda>doc.
      err_bind (getitem template (ascii ''p21'')) (\<lambda>p21.
      err_bind (add_para doc p21 (body_kw 3)) (\<lambda>doc.
      err_bind (getitem template (ascii ''p22'')) (\<lambda>p22.
      err_bind (add_para doc p22 (body_kw 3)) (\<lambda>doc.
      err_bind (getitem template (ascii ''p23'')) (\<lambda>p23.
      err_bind (add_para doc p23 (body_kw 6)) (\<lambda>doc.
      err_bind (getitem template (ascii ''h3'')) (\<lambda>h3.
      err_bind (add_para doc h3 heading_kw) (\<lambda>doc.
      err_bind (getitem template (ascii ''p31'')) (\<lambda>p31.
      err_bind (add_para doc p31 (body_kw 3)) (\<lambda>doc.
      err_bind (getitem template (ascii ''p32'')) (\<lambda>p32.
      err_bind (add_para doc p32 (body_kw 6)) (\<lambda>doc.
      err_bind (getitem template (ascii ''h4'')) (\<lambda>h4.
      err_bind (add_para doc h4 heading_kw) (\<lambda>doc.
      err_bind (getitem template (ascii ''p41'')) (\<lambda>p41.
      err_bind (add_para doc p41 (body_kw 3)) (\<lambda>doc.
      err_bind (getitem template (ascii ''p42'')) (\<lambda>p42.
      err_bind (add_para doc p42 (body_kw 3)) (\<lambda>doc.
      err_bind (getitem template (ascii ''p43'')) (\<lambda>p43.
      err_bind (add_para doc p43 (body_kw 8)) (\<lambda>doc.
      err_bind (getitem template (ascii ''h5'')) (\<lambda>h5.
      err_bind (add_para doc h5 heading_kw) (\<lambda>doc.
      err_bind (add_two_col doc sig_principal sig_agent
        (add_two_col_defaults\<lparr>col_bold := True, col_after := 4\<rparr>)) (\<lambda>doc.
      err_bind (add_two_col doc (principal_short args) sig_agent_name
        (add_two_col_defaults\<lparr>col_after := 2\<rparr>)) (\<lambda>doc.
      err_bind (add_two_col doc (principal_position_sign args) []
        (add_two_col_defaults\<lparr>col_after := 8\<rparr>)) (\<lambda>doc.
      err_bind (add_two_col doc sig_line sig_line
        (add_two_col_defaults\<lparr>col_after := 2\<rparr>)) (\<lambda>doc.
      add_two_col doc (principal_signer_short args) sig_agent_short
        (add_two_col_defaults\<lparr>col_after := 0\<rparr>)
      ))))))))))))))))))))))))))))))))))))))))))"

section \<open>Keys and example inputs\<close>

text \<open>The keys of the dictionary literal of \<open>extract_template_blocks\<close>, as written there.\<close>

definition clause_keys :: "ustr set" where
  "clause_keys = ascii ` {''h1'', ''p12'', ''bullets'', ''h2'', ''p21'', ''p22'', ''p23'', ''h3'',
     ''p31'', ''p32'', ''h4'', ''p41'', ''p42'', ''p43'', ''h5''}"

text \<open>
  A parameter set as the command line gives it: the defaults of \<open>--city\<close> and
  \<open>--acting-word\<close> (source lines 240 and 258), the agreement number of the help text
  and two dates.
\<close>

definition example_args :: namespace where
  "example_args = \<lparr>ds_no = ascii ''1'', agreement_kind = ascii ''agent'',
     agreement_no = ascii ''AG-092023-1880'', agreement_date = ascii ''01.09.2023'',
     sign_date = ascii ''15.03.2024'',
     city = [1075, 46, 32, 1055, 1077, 1088, 1084, 1100],
     principal_full = ascii ''Acme LLC'', principal_short = ascii ''Acme'',
     principal_position_intro = ascii ''CEO'', principal_position_sign = ascii ''CEO'',
     principal_signer_full = ascii ''J. Doe'', principal_signer_short = ascii ''Doe J.'',
     acting_word = [1076, 1077, 1081, 1089, 1090, 1074, 1091, 1102, 1097, 1077, 1075, 1086]\<rparr>"

text \<open>
  A reference document of 22 paragraphs: paragraph \<open>i\<close> is a no-break space and the
  letter number \<open>i\<close> of the alphabet, except paragraph 9, the bullet block, which is
  given.
\<close>

definition example_reference :: "ustr \<Rightarrow> ustr list" where
  "example_reference bullets =
     [[160, 65], [160, 66], [160, 67], [160, 68], [160, 69], [160, 70], [160, 71], [160, 72],
      [160, 73], bullets, [160, 75], [160, 76], [160, 77], [160, 78], [160, 79], [160, 80],
      [160, 81], [160, 82], [160, 83], [160, 84], [160, 85], [160, 86]]"

text \<open>
  What \<open>extract_template_blocks\<close> binds to the key that reads index \<open>i\<close>: the pattern
  \<open>p[i] if len(p) > i else fallback\<close> of every entry of its dictionary.
\<close>

definition clause_text :: "ustr list \<Rightarrow> nat \<Rightarrow> ustr \<Rightarrow> ustr" where
  "clause_text paragraph_texts i fallback =
     (if length paragraph_texts > i then clean (paragraph_texts ! i) else fallback)"

text \<open>The texts and the number of the paragraphs of the document a run returns.\<close>

definition result_texts :: "error + document \<Rightarrow> error + ustr list" where
  "result_texts r = map_sum id (\<lambda>doc. map paragraph_text (paragraphs doc)) r"

definition result_count :: "error + document \<Rightarrow> error + nat" where
  "result_count r = map_sum id (\<lambda>doc. length (paragraphs doc)) r"

text \<open>
  The inputs every text of which a run can hold: the fields of the parameter set that
  \<open>build_doc\<close> writes into the document, and the paragraphs of the reference document.
\<close>

definition renderable :: "namespace \<Rightarrow> ustr list \<Rightarrow> bool" where
  "renderable args reference \<longleftrightarrow>
     xml_text (ds_no args) \<and> xml_text (agreement_no args) \<and> xml_text (agreement_date args) \<and>
     xml_text (sign_date args) \<and> xml_text (city args) \<and> xml_text (principal_full args) \<and>
     xml_text (principal_short args) \<and> xml_text (principal_position_intro args) \<and>
     xml_text (principal_position_sign args) \<and> xml_text (principal_signer_full args) \<and>
     xml_text (principal_signer_short args) \<and> xml_text (acting_word args) \<and>
     list_all xml_text reference"

section \<open>The string operations\<close>

lemma split_no_sep: "sep \<notin> set a \<Longrightarrow> split sep a = [a]"
  by (induction a) auto

lemma split_append: "sep \<notin> set a \<Longrightarrow> split sep (a @ sep # rest) = a # split sep rest"
  by (induction a) auto

lemma split_three:
  assumes "sep \<notin> set a" "sep \<notin> set b" "sep \<notin> set c"
  shows "split sep (a @ [sep] @ b @ [sep] @ c) = [a, b, c]"
  using assms by (simp add: split_append split_no_sep)




section \<open>The date phraser\<close>



section \<open>The label selectors\<close>

text \<open>
  Claim C6. For \<open>agent\<close> the selectors return the agent forms of the dative and the
  genitive, for \<open>contract\<close> the plain forms; for each case the two results differ; and
  on any kind the selectors return one of the two forms, so they never fail.
\<close>

theorem agreement_labels:
  "agreement_label_dative (ascii ''agent'') =
     [1072, 1075, 1077, 1085, 1090, 1089, 1082, 1086, 1084, 1091, 32,
      1076, 1086, 1075, 1086, 1074, 1086, 1088, 1091]
   \<and> agreement_label_genitive (ascii ''agent'') =
     [1072, 1075, 1077, 1085, 1090, 1089, 1082, 1086, 1075, 1086, 32,
      1076, 1086, 1075, 1086, 1074, 1086, 1088, 1072]
   \<and> agreement_label_dative (ascii ''contract'') = [1076, 1086, 1075, 1086, 1074, 1086, 1088, 1091]
   \<and> agreement_label_genitive (ascii ''contract'') = [1076, 1086, 1075, 1086, 1074, 1086, 1088, 1072]
   \<and> agreement_label_dative (ascii ''agent'') \<noteq> agreement_label_dative (ascii ''contract'')
   \<and> agreement_label_genitive (ascii ''agent'') \<noteq> agreement_label_genitive (ascii ''contract'')
   \<and> agreement_label_dative kind \<in>
       {agreement_label_dative (ascii ''agent''), agreement_label_dative (ascii ''contract'')}
   \<and> agreement_label_genitive kind \<in>
       {agreement_label_genitive (ascii ''agent''), agreement_label_genitive (ascii ''contract'')}"
  by (simp add: agreement_label_dative_def agreement_label_genitive_def ascii_def)

section \<open>The template extractor\<close>

lemma ascii_eq_iff: "ascii a = ascii b \<longleftrightarrow> a = b"
  unfolding ascii_def by (simp add: inj_map_eq_map inj_of_char)

lemma fallbacks_nonempty:
  "fallback_h1 \<noteq> []" "fallback_p12 \<noteq> []" "fallback_bullets \<noteq> []" "fallback_h2 \<noteq> []"
  "fallback_p21 \<noteq> []" "fallback_p22 \<noteq> []" "fallback_p23 \<noteq> []" "fallback_h3 \<noteq> []"
  "fallback_p31 \<noteq> []" "fallback_p32 \<noteq> []" "fallback_h4 \<noteq> []" "fallback_p41 \<noteq> []"
  "fallback_p42 \<noteq> []" "fallback_p43 \<noteq> []" "fallback_h5 \<noteq> []"
  by (simp_all add: fallback_h1_def fallback_p12_def fallback_bullets_def fallback_h2_def
      fallback_p21_def fallback_p22_def fallback_p23_def fallback_h3_def fallback_p31_def
      fallback_p32_def fallback_h4_def fallback_p41_def fallback_p42_def fallback_p43_def
      fallback_h5_def)

lemma dom_extract_template_blocks: "dom (extract_template_blocks ps) = clause_keys"
  by (simp add: extract_template_blocks_def clause_keys_def Let_def insert_commute)

lemma p11_not_key: "ascii ''p11'' \<notin> clause_keys"
  by (simp add: clause_keys_def ascii_eq_iff)


lemma clean_one_pass:
  "clean t = strip (map (\<lambda>c. if c = 8232 then 10 else if c = 160 then 32 else c) t)"
proof -
  have "(\<lambda>c. if c = 160 then 32 else c) \<circ> (\<lambda>c. if c = 8232 then 10 else c) =
        (\<lambda>c::nat. if c = 8232 then 10 else if c = 160 then 32 else c)"
    by (rule ext) simp
  then show ?thesis
    by (simp add: clean_def replace_def)
qed

text \<open>
  Claim C3. For a reference document of at least 22 paragraphs, every value of the clause
  map is the cleaned text of the paragraph at the index of its key, where cleaning turns
  U+2028 into a line feed and U+00A0 into a space, then removes the whitespace at both ends.
\<close>

theorem extract_template_blocks_canonical:
  assumes "22 \<le> length ps"
  shows "extract_template_blocks ps =
           [ascii ''h1'' \<mapsto> clean (ps ! 6), ascii ''p12'' \<mapsto> clean (ps ! 8),
            ascii ''bullets'' \<mapsto> clean (ps ! 9), ascii ''h2'' \<mapsto> clean (ps ! 10),
            ascii ''p21'' \<mapsto> clean (ps ! 11), ascii ''p22'' \<mapsto> clean (ps ! 12),
            ascii ''p23'' \<mapsto> clean (ps ! 13), ascii ''h3'' \<mapsto> clean (ps ! 14),
            ascii ''p31'' \<mapsto> clean (ps ! 15), ascii ''p32'' \<mapsto> clean (ps ! 16),
            ascii ''h4'' \<mapsto> clean (ps ! 17), ascii ''p41'' \<mapsto> clean (ps ! 18),
            ascii ''p42'' \<mapsto> clean (ps ! 19), ascii ''p43'' \<mapsto> clean (ps ! 20),
            ascii ''h5'' \<mapsto> clean (ps ! 21)]
         \<and> clean t = strip (map (\<lambda>c. if c = 8232 then 10 else if c = 160 then 32 else c) t)
         \<and> strip t = rev (dropWhile py_isspace (rev (dropWhile py_isspace t)))"
  using assms clean_one_pass [of t]
  by (simp add: extract_template_blocks_def strip_def strip_by_def)

theorem extract_template_blocks_canonical_witness:
  "22 \<le> length (example_reference [160, 74])
   \<and> extract_template_blocks (example_reference [160, 74]) =
       [ascii ''h1'' \<mapsto> [71], ascii ''p12'' \<mapsto> [73], ascii ''bullets'' \<mapsto> [74],
        ascii ''h2'' \<mapsto> [75], ascii ''p21'' \<mapsto> [76], ascii ''p22'' \<mapsto> [77],
        ascii ''p23'' \<mapsto> [78], ascii ''h3'' \<mapsto> [79], ascii ''p31'' \<mapsto> [80],
        ascii ''p32'' \<mapsto> [81], ascii ''h4'' \<mapsto> [82], ascii ''p41'' \<mapsto> [83],
        ascii ''p42'' \<mapsto> [84], ascii ''p43'' \<mapsto> [85], ascii ''h5'' \<mapsto> [86]]
   \<and> clean [32, 160, 8232, 65, 160, 8232, 66, 10] = [65, 32, 10, 66]"
  using extract_template_blocks_canonical [of "example_reference [160, 74]"
      "[32, 160, 8232, 65, 160, 8232, 66, 10]"]
  by (simp add: example_reference_def clean_def replace_def strip_def strip_by_def py_isspace_def)


text \<open>
  Claim C1, as amended. For every reference document the keys of the clause map are the
  fifteen keys of the dictionary; \<open>p11\<close> is not one of them. Each key is bound to the
  cleaned text of the reference paragraph at its index when that paragraph exists, and to
  its fallback otherwise; no fallback is empty. So a key is bound to the empty text
  exactly when the paragraph at its index exists and cleans to the empty text.
\<close>

theorem extract_template_blocks_keys:
  "dom (extract_template_blocks ps) = clause_keys \<and> ascii ''p11'' \<notin> clause_keys
   \<and> extract_template_blocks ps =
     [ascii ''h1'' \<mapsto> clause_text ps 6 fallback_h1,
      ascii ''p12'' \<mapsto> clause_text ps 8 fallback_p12,
      ascii ''bullets'' \<mapsto> clause_text ps 9 fallback_bullets,
      ascii ''h2'' \<mapsto> clause_text ps 10 fallback_h2,
      ascii ''p21'' \<mapsto> clause_text ps 11 fallback_p21,
      ascii ''p22'' \<mapsto> clause_text ps 12 fallback_p22,
      ascii ''p23'' \<mapsto> clause_text ps 13 fallback_p23,
      ascii ''h3'' \<mapsto> clause_text ps 14 fallback_h3,
      ascii ''p31'' \<mapsto> clause_text ps 15 fallback_p31,
      ascii ''p32'' \<mapsto> clause_text ps 16 fallback_p32,
      ascii ''h4'' \<mapsto> clause_text ps 17 fallback_h4,
      ascii ''p41'' \<mapsto> clause_text ps 18 fallback_p41,
      ascii ''p42'' \<mapsto> clause_text ps 19 fallback_p42,
      ascii ''p43'' \<mapsto> clause_text ps 20 fallback_p43,
      ascii ''h5'' \<mapsto> clause_text ps 21 fallback_h5]
   \<and> clause_text ps i fallback = (if i < length ps then clean (ps ! i) else fallback)
   \<and> list_all (\<lambda>(i, fallback). fallback \<noteq> [] \<and>
         (clause_text ps i fallback = []) = (i < length ps \<and> clean (ps ! i) = []))
       [(6, fallback_h1), (8, fallback_p12), (9, fallback_bullets), (10, fallback_h2),
        (11, fallback_p21), (12, fallback_p22), (13, fallback_p23), (14, fallback_h3),
        (15, fallback_p31), (16, fallback_p32), (17, fallback_h4), (18, fallback_p41),
        (19, fallback_p42), (20, fallback_p43), (21, fallback_h5)]"
proof -
  have "extract_template_blocks ps =
     [ascii ''h1'' \<mapsto> clause_text ps 6 fallback_h1,
      ascii ''p12'' \<mapsto> clause_text ps 8 fallback_p12,
      ascii ''bullets'' \<mapsto> clause_text ps 9 fallback_bullets,
      ascii ''h2'' \<mapsto> clause_text ps 10 fallback_h2,
      ascii ''p21'' \<mapsto> clause_text ps 11 fallback_p21,
      ascii ''p22'' \<mapsto> clause_text ps 12 fallback_p22,
      ascii ''p23'' \<mapsto> clause_text ps 13 fallback_p23,
      ascii ''h3'' \<mapsto> clause_text ps 14 fallback_h3,
      ascii ''p31'' \<mapsto> clause_text ps 15 fallback_p31,
      ascii ''p32'' \<mapsto> clause_text ps 16 fallback_p32,
      ascii ''h4'' \<mapsto> clause_text ps 17 fallback_h4,
      ascii ''p41'' \<mapsto> clause_text ps 18 fallback_p41,
      ascii ''p42'' \<mapsto> clause_text ps 19 fallback_p42,
      ascii ''p43'' \<mapsto> clause_text ps 20 fallback_p43,
      ascii ''h5'' \<mapsto> clause_text ps 21 fallback_h5]"
    by (simp add: extract_template_blocks_def Let_def clause_text_def)
  moreover have "(clause_text ps j fb = []) = (j < length ps \<and> clean (ps ! j) = [])"
    if "fb \<noteq> []" for j fb
    using that by (simp add: clause_text_def)
  ultimately show ?thesis
    using dom_extract_template_blocks [of ps] p11_not_key
    by (simp add: fallbacks_nonempty) (simp add: clause_text_def)
qed

text \<open>
  Claim C1 as stated fails on a reference document of 22 empty paragraphs: the key
  \<open>p11\<close> is absent, and the key \<open>h1\<close> is bound to the empty text.
\<close>

theorem extract_template_blocks_keys_counterexample:
  "ascii ''p11'' \<notin> dom (extract_template_blocks (replicate 22 []))
   \<and> extract_template_blocks (replicate 22 []) (ascii ''h1'') = Some []"
  by (simp add: dom_extract_template_blocks p11_not_key)
    (simp add: extract_template_blocks_def clean_def replace_def strip_def strip_by_def)

section \<open>The bullet items\<close>

text \<open>On the fallback bullets the items are the four lines without their first two characters.\<close>

lemma fallback_bullets_items_eq:
  "bullet_items fallback_bullets = map (drop 2) (split 10 fallback_bullets)"
  by (simp add: bullet_items_def fallback_bullets_def strip_chars_def strip_def strip_by_def
      py_isspace_def)

text \<open>
  Claim C7. The bullet splitting of \<open>build_doc\<close>, applied to the fallback bullets, gives
  exactly four items; no item is empty, begins with a hyphen-minus, U+2014 or U+2022, or
  begins or ends with whitespace.
\<close>

theorem fallback_bullet_items:
  "length (bullet_items fallback_bullets) = 4
   \<and> list_all (\<lambda>item. item \<noteq> [] \<and> hd item \<notin> {45, 8212, 8226}
         \<and> \<not> py_isspace (hd item) \<and> \<not> py_isspace (last item))
       (bullet_items fallback_bullets)
   \<and> bullet_items fallback_bullets = map (drop 2) (split 10 fallback_bullets)"
  unfolding fallback_bullets_items_eq
  by (simp add: fallback_bullets_def py_isspace_def)

section \<open>Error propagation\<close>

lemma err_bind_simps [simp]:
  "err_bind (Inl e) f = Inl e"
  "err_bind (Inr x) f = f x"
  by (simp_all add: err_bind_def)

lemma err_bind_Inr_iff: "err_bind r f = Inr y \<longleftrightarrow> (\<exists>x. r = Inr x \<and> f x = Inr y)"
  by (cases r) simp_all

lemma err_bind_if:
  "err_bind (if c then Inr x else Inl e) f = (if c then f x else Inl e)"
  by simp

section \<open>The paragraph constructors\<close>

text \<open>What each constructor returns: the document with one more paragraph, or the error.\<close>

lemma add_para_eq:
  "add_para doc t kw =
     (if pt_ok (before kw) \<and> pt_ok (after kw) \<and> xml_text t \<and> pt_ok (size_pt kw)
      then Inr (doc\<lparr>paragraphs := paragraphs doc @
        [\<lparr>alignment = Some (align kw), space_before = Some (Pt (before kw)),
          space_after = Some (Pt (after kw)), line_spacing = Some (115 / 100),
          first_line_indent = (if first_indent kw then Some (Cm (125 / 100)) else None),
          tab_stops = [],
          runs = [\<lparr>run_text = stored_text t, run_bold = Some (bold kw),
                    font_name = Some times_new_roman,
                    font_size = Some (Pt (size_pt kw))\<rparr>]\<rparr>]\<rparr>)
      else Inl ValueError)"
  by (simp add: add_para_def set_pt_def new_run_def new_paragraph_def Let_def)

lemma add_two_col_eq:
  "add_two_col doc l r kw =
     (if pt_ok (col_after kw) \<and> xml_text l \<and> xml_text r
      then Inr (doc\<lparr>paragraphs := paragraphs doc @
        [\<lparr>alignment = Some LEFT, space_before = None,
          space_after = Some (Pt (col_after kw)), line_spacing = Some (115 / 100),
          first_line_indent = None, tab_stops = [(Cm (88 / 10), TAB_LEFT)],
          runs = [\<lparr>run_text = stored_text l, run_bold = Some (col_bold kw),
                    font_name = Some times_new_roman, font_size = Some (Pt 12)\<rparr>,
                  \<lparr>run_text = [9], run_bold = None, font_name = None, font_size = None\<rparr>,
                  \<lparr>run_text = stored_text r, run_bold = Some (col_bold kw),
                    font_name = Some times_new_roman, font_size = Some (Pt 12)\<rparr>]\<rparr>]\<rparr>)
      else Inl ValueError)"
  by (simp add: add_two_col_def set_pt_def new_run_def new_paragraph_def Let_def
      xml_text_def xml_char_def stored_text_def)

text \<open>
  Claim C9, as amended. \<open>add_para\<close> accepts the options alignment, bold, font size,
  spacing before, spacing after and first-line indent. When the two spacings and the font
  size are in the range the library accepts (0 to 1452499533362956 points) and the text
  holds only characters XML can hold, it appends one paragraph whose alignment, spacings,
  bold and font size are the values of the options, whose first-line indent is 1.25 cm
  exactly when \<open>first_indent\<close> is set, and whose line spacing is always 1.15; otherwise it
  raises \<open>ValueError\<close>. \<open>add_two_col\<close> accepts only bold and spacing after, and under the
  same conditions appends one left-aligned paragraph without indent, of size 12 and line
  spacing 1.15. Line spacing is an option of neither: a call with the keyword
  \<open>line_spacing\<close>, and a call of \<open>add_two_col\<close> with \<open>align\<close>, \<open>size\<close>, \<open>before\<close> or
  \<open>first_indent\<close>, raises \<open>TypeError\<close>.
\<close>

theorem paragraph_constructors:
  "add_para doc t kw =
     (if pt_ok (before kw) \<and> pt_ok (after kw) \<and> xml_text t \<and> pt_ok (size_pt kw)
      then Inr (doc\<lparr>paragraphs := paragraphs doc @
        [\<lparr>alignment = Some (align kw), space_before = Some (Pt (before kw)),
          space_after = Some (Pt (after kw)), line_spacing = Some (115 / 100),
          first_line_indent = (if first_indent kw then Some (Cm (125 / 100)) else None),
          tab_stops = [],
          runs = [\<lparr>run_text = stored_text t, run_bold = Some (bold kw),
                    font_name = Some times_new_roman,
                    font_size = Some (Pt (size_pt kw))\<rparr>]\<rparr>]\<rparr>)
      else Inl ValueError)
   \<and> add_two_col doc l r ckw =
     (if pt_ok (col_after ckw) \<and> xml_text l \<and> xml_text r
      then Inr (doc\<lparr>paragraphs := paragraphs doc @
        [\<lparr>alignment = Some LEFT, space_before = None,
          space_after = Some (Pt (col_after ckw)), line_spacing = Some (115 / 100),
          first_line_indent = None, tab_stops = [(Cm (88 / 10), TAB_LEFT)],
          runs = [\<lparr>run_text = stored_text l, run_bold = Some (col_bold ckw),
                    font_name = Some times_new_roman, font_size = Some (Pt 12)\<rparr>,
                  \<lparr>run_text = [9], run_bold = None, font_name = None, font_size = None\<rparr>,
                  \<lparr>run_text = stored_text r, run_bold = Some (col_bold ckw),
                    font_name = Some times_new_roman, font_size = Some (Pt 12)\<rparr>]\<rparr>]\<rparr>)
      else Inl ValueError)
   \<and> pt_ok n = (0 \<le> n \<and> n \<le> 1452499533362956)
   \<and> call_add_para doc t [Align a, Bold b, Size s, Before bf, After af, First_indent fi] =
       add_para doc t \<lparr>align = a, bold = b, size_pt = s, before = bf, after = af,
         first_indent = fi\<rparr>
   \<and> call_add_para doc t [] = add_para doc t add_para_defaults
   \<and> call_add_para doc t [Line_spacing x] = Inl TypeError
   \<and> call_add_two_col doc l r [Bold b, After af] =
       add_two_col doc l r \<lparr>col_bold = b, col_after = af\<rparr>
   \<and> call_add_two_col doc l r [Align a] = Inl TypeError
   \<and> call_add_two_col doc l r [Size s] = Inl TypeError
   \<and> call_add_two_col doc l r [Before bf] = Inl TypeError
   \<and> call_add_two_col doc l r [Line_spacing x] = Inl TypeError
   \<and> call_add_two_col doc l r [First_indent fi] = Inl TypeError"
proof -
  have "pt_ok n = (0 \<le> n \<and> n \<le> 1452499533362956)"
    by (auto simp: pt_ok_def)
  then show ?thesis
    by (simp add: add_para_eq [symmetric] add_two_col_eq [symmetric] call_add_para_def
        call_add_two_col_def add_para_defaults_def add_two_col_defaults_def)
qed

text \<open>
  Claim C9 as stated fails: line spacing is not an option of \<open>add_para\<close>, and alignment is
  not an option of \<open>add_two_col\<close>; the line spacing of a paragraph is 1.15; and the option
  \<open>before = -1\<close> gives no paragraph but \<open>ValueError\<close>.
\<close>

theorem paragraph_constructors_counterexample:
  "call_add_para new_document (ascii ''x'') [Line_spacing 2] = Inl TypeError
   \<and> call_add_two_col new_document (ascii ''x'') (ascii ''y'') [Align CENTER] = Inl TypeError
   \<and> map_sum id (\<lambda>doc. map line_spacing (paragraphs doc))
       (add_para new_document (ascii ''x'') add_para_defaults) = Inr [Some (115 / 100)]
   \<and> add_para new_document (ascii ''x'') (add_para_defaults\<lparr>before := - 1\<rparr>) = Inl ValueError"
  by (simp add: add_para_eq call_add_para_def call_add_two_col_def add_para_defaults_def
      pt_ok_def xml_text_def xml_char_def ascii_def new_document_def)

section \<open>Texts a run can hold\<close>

lemma xml_text_simps [simp]:
  "xml_text []"
  "xml_text (c # t) \<longleftrightarrow> xml_char c \<and> xml_text t"
  "xml_text (a @ b) \<longleftrightarrow> xml_text a \<and> xml_text b"
  by (simp_all add: xml_text_def)

lemma xml_text_subset: "set a \<subseteq> set b \<Longrightarrow> xml_text b \<Longrightarrow> xml_text a"
  by (auto simp: xml_text_def list_all_iff)

lemma stored_text_simps [simp]:
  "stored_text [] = []"
  "stored_text (c # t) = (if c = 13 then 10 else c) # stored_text t"
  "stored_text (a @ b) = stored_text a @ stored_text b"
  by (simp_all add: stored_text_def)

lemma stored_text_id: "13 \<notin> set t \<Longrightarrow> stored_text t = t"
  by (induction t) auto

lemma stored_text_id_iff: "stored_text t = t \<longleftrightarrow> 13 \<notin> set t"
  by (induction t) auto

lemma set_strip_by: "set (strip_by P s) \<subseteq> set s"
proof -
  have "set (dropWhile P (rev (dropWhile P s))) \<subseteq> set (dropWhile P s)"
    by (auto dest: set_dropWhileD)
  also have "\<dots> \<subseteq> set s"
    by (auto dest: set_dropWhileD)
  finally show ?thesis
    by (simp add: strip_by_def)
qed

lemma xml_text_clean: "xml_text t \<Longrightarrow> xml_text (clean t)"
proof -
  assume t: "xml_text t"
  have "xml_text (replace 160 32 (replace 8232 10 t))"
    using t by (induction t) (auto simp: replace_def xml_char_def)
  then show ?thesis
    unfolding clean_def strip_def by (rule xml_text_subset [OF set_strip_by])
qed

lemma xml_text_clause_text:
  "list_all xml_text reference \<Longrightarrow> xml_text fallback \<Longrightarrow>
     xml_text (clause_text reference i fallback)"
  by (auto simp: clause_text_def list_all_length intro: xml_text_clean)

lemma set_concat_split: "set (concat (split sep s)) \<subseteq> set s"
  by (induction s) (auto split: list.splits, blast+)

lemma set_split: "x \<in> set (split sep s) \<Longrightarrow> set x \<subseteq> set s"
  using set_concat_split [of sep s] by auto

lemma set_concat_re_split: "set (concat (re_split cls s)) \<subseteq> set s"
proof (induction cls s rule: re_split.induct)
  case (1 cls)
  then show ?case by simp
next
  case (2 cls c cs)
  show ?case
  proof (cases "cls c")
    case True
    with 2 have "set (concat (re_split cls (dropWhile cls cs))) \<subseteq> set cs"
      by (auto dest: set_dropWhileD)
    with True show ?thesis
      by auto
  next
    case False
    with 2 show ?thesis
      by (auto split: list.splits, blast+)
  qed
qed

lemma set_re_split: "x \<in> set (re_split cls s) \<Longrightarrow> set x \<subseteq> set s"
  using set_concat_re_split [of cls s] by auto

lemma set_bullet_items:
  assumes "x \<in> set (bullet_items b)"
  shows "set x \<subseteq> set b"
proof -
  from assms obtain y where y: "y \<in> set (re_split (\<lambda>c. c = 10 \<or> c = 13) b)"
    and x: "x = strip_chars [32, 45, 8212, 9] y"
    by (auto simp: bullet_items_def)
  have "set x \<subseteq> set y"
    unfolding x strip_chars_def by (rule set_strip_by)
  with set_re_split [OF y] show ?thesis
    by blast
qed

lemma xml_text_bullet_items:
  assumes "xml_text b"
  shows "list_all xml_text (bullet_items b)"
  unfolding list_all_iff
proof
  fix x
  assume "x \<in> set (bullet_items b)"
  then have "set x \<subseteq> set b"
    by (rule set_bullet_items)
  then show "xml_text x"
    using assms by (rule xml_text_subset)
qed

lemma xml_text_months: "map_of MONTHS m = Some name \<Longrightarrow> xml_text name"
proof -
  have "list_all (\<lambda>(m, name). xml_text name) MONTHS"
    by (simp add: MONTHS_def xml_char_def)
  then show "map_of MONTHS m = Some name \<Longrightarrow> xml_text name"
    by (auto simp: list_all_iff dest: map_of_SomeD)
qed

lemma xml_text_format_ru_date:
  assumes "format_ru_date d = Inr phrase" and "xml_text d"
  shows "xml_text phrase"
proof -
  from assms(1) obtain day month year name
    where s: "split 46 d = [day, month, year]" and m: "map_of MONTHS month = Some name"
      and p: "phrase = [171] @ day @ [187, 32] @ name @ [32] @ year @ [32, 1075, 1086, 1076, 1072]"
    by (auto simp: format_ru_date_def split: list.splits option.splits)
  have "day \<in> set (split 46 d)" "year \<in> set (split 46 d)"
    using s by simp_all
  then have "xml_text day" "xml_text year"
    using set_split xml_text_subset assms(2) by blast+
  with m p show ?thesis
    by (simp add: xml_text_months xml_char_def)
qed

lemma xml_text_drop_last: "xml_text p \<Longrightarrow> xml_text (drop_last n p)"
  unfolding drop_last_def by (rule xml_text_subset [OF set_take_subset])

lemma xml_text_labels [simp]:
  "xml_text (agreement_label_dative kind)"
  "xml_text (agreement_label_genitive kind)"
  by (simp_all add: agreement_label_dative_def agreement_label_genitive_def xml_char_def)

lemma stored_text_labels [simp]:
  "stored_text (agreement_label_dative kind) = agreement_label_dative kind"
  "stored_text (agreement_label_genitive kind) = agreement_label_genitive kind"
  by (simp_all add: agreement_label_dative_def agreement_label_genitive_def)

lemma xml_text_literals [simp]:
  "xml_text title_prefix" "xml_text intro_agent" "xml_text intro_in_person"
  "xml_text intro_basis" "xml_text intro_closing" "xml_text p11_opening"
  "xml_text p11_closing" "xml_text sig_principal" "xml_text sig_agent"
  "xml_text sig_agent_name" "xml_text sig_line" "xml_text sig_agent_short"
  by (simp_all add: title_prefix_def intro_agent_def intro_in_person_def intro_basis_def
      intro_closing_def p11_opening_def p11_closing_def sig_principal_def sig_agent_def
      sig_agent_name_def sig_line_def sig_agent_short_def xml_char_def)

lemma xml_text_fallbacks [simp]:
  "xml_text fallback_h1" "xml_text fallback_p12" "xml_text fallback_bullets"
  "xml_text fallback_h2" "xml_text fallback_p21" "xml_text fallback_p22"
  "xml_text fallback_p23" "xml_text fallback_h3" "xml_text fallback_p31"
  "xml_text fallback_p32" "xml_text fallback_h4" "xml_text fallback_p41"
  "xml_text fallback_p42" "xml_text fallback_p43" "xml_text fallback_h5"
  by (simp_all add: fallback_h1_def fallback_p12_def fallback_bullets_def fallback_h2_def
      fallback_p21_def fallback_p22_def fallback_p23_def fallback_h3_def fallback_p31_def
      fallback_p32_def fallback_h4_def fallback_p41_def fallback_p42_def fallback_p43_def
      fallback_h5_def xml_char_def)

section \<open>The renderer\<close>

lemma pt_ok_constants [simp]:
  "pt_ok 0" "pt_ok 2" "pt_ok 3" "pt_ok 4" "pt_ok 6" "pt_ok 8" "pt_ok 10" "pt_ok 12" "pt_ok 14"
  by (simp_all add: pt_ok_def)

text \<open>What the loop over the bullet items returns.\<close>

lemma add_items_eq:
  "add_items doc items =
     (if list_all xml_text items
      then Inr (doc\<lparr>paragraphs := paragraphs doc @
        map (\<lambda>item. \<lparr>alignment = Some JUSTIFY, space_before = Some (Pt 0),
          space_after = Some (Pt 2), line_spacing = Some (115 / 100),
          first_line_indent = None, tab_stops = [],
          runs = [\<lparr>run_text = [8226, 32] @ stored_text item, run_bold = Some False,
                    font_name = Some times_new_roman, font_size = Some (Pt 12)\<rparr>]\<rparr>) items\<rparr>)
      else Inl ValueError)"
  by (induction items arbitrary: doc)
    (simp_all add: add_para_eq body_kw_def add_para_defaults_def xml_char_def)

text \<open>No lookup of \<open>build_doc\<close> in the clause map raises.\<close>

lemma getitem_extract_template_blocks:
  "getitem (extract_template_blocks ps) (ascii ''h1'') = Inr (clause_text ps 6 fallback_h1)"
  "getitem (extract_template_blocks ps) (ascii ''p12'') = Inr (clause_text ps 8 fallback_p12)"
  "getitem (extract_template_blocks ps) (ascii ''bullets'') =
     Inr (clause_text ps 9 fallback_bullets)"
  "getitem (extract_template_blocks ps) (ascii ''h2'') = Inr (clause_text ps 10 fallback_h2)"
  "getitem (extract_template_blocks ps) (ascii ''p21'') = Inr (clause_text ps 11 fallback_p21)"
  "getitem (extract_template_blocks ps) (ascii ''p22'') = Inr (clause_text ps 12 fallback_p22)"
  "getitem (extract_template_blocks ps) (ascii ''p23'') = Inr (clause_text ps 13 fallback_p23)"
  "getitem (extract_template_blocks ps) (ascii ''h3'') = Inr (clause_text ps 14 fallback_h3)"
  "getitem (extract_template_blocks ps) (ascii ''p31'') = Inr (clause_text ps 15 fallback_p31)"
  "getitem (extract_template_blocks ps) (ascii ''p32'') = Inr (clause_text ps 16 fallback_p32)"
  "getitem (extract_template_blocks ps) (ascii ''h4'') = Inr (clause_text ps 17 fallback_h4)"
  "getitem (extract_template_blocks ps) (ascii ''p41'') = Inr (clause_text ps 18 fallback_p41)"
  "getitem (extract_template_blocks ps) (ascii ''p42'') = Inr (clause_text ps 19 fallback_p42)"
  "getitem (extract_template_blocks ps) (ascii ''p43'') = Inr (clause_text ps 20 fallback_p43)"
  "getitem (extract_template_blocks ps) (ascii ''h5'') = Inr (clause_text ps 21 fallback_h5)"
  by (simp_all add: getitem_def extract_template_blocks_def Let_def ascii_eq_iff clause_text_def)

text \<open>
  An error of either call of \<open>format_ru_date\<close> ends \<open>build_doc\<close> in an error: in that
  error, for the signing date, when the title and the subtitle can be written.
\<close>

lemma build_doc_sign_error:
  assumes "format_ru_date (sign_date args) = Inl e"
    and "xml_text (ds_no args)" "xml_text (agreement_no args)" "xml_text (agreement_date args)"
  shows "build_doc args reference = Inl e"
  unfolding build_doc_def Let_def
  by (simp add: assms add_para_eq add_para_defaults_def xml_char_def)

lemma build_doc_sign_fails:
  assumes "format_ru_date (sign_date args) = Inl e"
  shows "isl (build_doc args reference)"
  unfolding build_doc_def Let_def
  by (simp add: assms add_para_eq add_para_defaults_def)

lemma build_doc_agreement_fails:
  assumes "format_ru_date (agreement_date args) = Inl e"
  shows "isl (build_doc args reference)"
proof (cases "format_ru_date (sign_date args)")
  case (Inl e')
  then show ?thesis
    by (rule build_doc_sign_fails)
next
  case (Inr sign_phrase)
  show ?thesis
    unfolding build_doc_def Let_def
    by (simp add: assms Inr add_para_eq add_para_defaults_def new_run_def)
qed

text \<open>
  When both dates format and every text can be held by a run, \<open>build_doc\<close> returns a
  document, and these are the texts of its paragraphs, in order, as they read back.
\<close>

lemma build_doc_texts:
  assumes "format_ru_date (sign_date args) = Inr sign_phrase"
    and "format_ru_date (agreement_date args) = Inr agreement_phrase"
    and "renderable args reference"
  shows "result_texts (build_doc args reference) = Inr (map stored_text (
     [title_prefix @ ds_no args,
      [1082, 32] @ agreement_label_dative (agreement_kind args) @ [32, 8470, 32]
        @ agreement_no args @ [32, 1086, 1090, 32] @ agreement_date args @ [46],
      city args @ [9] @ sign_phrase,
      intro_agent @ principal_full args @ intro_in_person @ principal_position_intro args
        @ [32] @ principal_signer_full args @ [44, 32] @ acting_word args @ intro_basis
        @ ds_no args @ intro_closing,
      clause_text reference 6 fallback_h1,
      p11_opening @ agreement_label_genitive (agreement_kind args) @ [32, 8470, 8239]
        @ agreement_no args @ [32, 1086, 1090, 32] @ drop_last 5 agreement_phrase
        @ p11_closing,
      clause_text reference 8 fallback_p12]
     @ map ((@) [8226, 32]) (bullet_items (clause_text reference 9 fallback_bullets))
     @ [clause_text reference 10 fallback_h2, clause_text reference 11 fallback_p21,
        clause_text reference 12 fallback_p22, clause_text reference 13 fallback_p23,
        clause_text reference 14 fallback_h3, clause_text reference 15 fallback_p31,
        clause_text reference 16 fallback_p32, clause_text reference 17 fallback_h4,
        clause_text reference 18 fallback_p41, clause_text reference 19 fallback_p42,
        clause_text reference 20 fallback_p43, clause_text reference 21 fallback_h5,
        sig_principal @ [9] @ sig_agent,
        principal_short args @ [9] @ sig_agent_name,
        principal_position_sign args @ [9],
        sig_line @ [9] @ sig_line,
        principal_signer_short args @ [9] @ sig_agent_short]))"
proof -
  from assms(3) have fields:
    "xml_text (ds_no args)" "xml_text (agreement_no args)" "xml_text (agreement_date args)"
    "xml_text (sign_date args)" "xml_text (city args)" "xml_text (principal_full args)"
    "xml_text (principal_short args)" "xml_text (principal_position_intro args)"
    "xml_text (principal_position_sign args)" "xml_text (principal_signer_full args)"
    "xml_text (principal_signer_short args)" "xml_text (acting_word args)"
    and ref: "list_all xml_text reference"
    by (simp_all add: renderable_def)
  have phrases: "xml_text sign_phrase" "xml_text (drop_last 5 agreement_phrase)"
    using assms(1,2) fields by (auto intro: xml_text_format_ru_date xml_text_drop_last)
  have clauses: "xml_text (clause_text reference i fb)" if "xml_text fb" for i fb
    using ref that by (rule xml_text_clause_text)
  have items: "list_all xml_text (bullet_items (clause_text reference 9 fallback_bullets))"
    by (simp add: xml_text_bullet_items clauses)
  show ?thesis
    unfolding build_doc_def Let_def
    by (simp add: assms(1,2) fields phrases clauses items add_para_eq add_two_col_eq
        add_items_eq new_run_def getitem_extract_template_blocks heading_kw_def body_kw_def
        add_para_defaults_def add_two_col_defaults_def result_texts_def paragraph_text_def
        new_document_def set_doc_defaults_def new_paragraph_def xml_char_def comp_def)
qed

lemma result_count_texts: "result_count r = map_sum id length (result_texts r)"
  by (cases r) (simp_all add: result_count_def result_texts_def)

lemma build_doc_count:
  assumes "format_ru_date (sign_date args) = Inr sign_phrase"
    and "format_ru_date (agreement_date args) = Inr agreement_phrase"
    and "renderable args reference"
  shows "result_count (build_doc args reference) =
    Inr (24 + length (bullet_items (clause_text reference 9 fallback_bullets)))"
  by (simp add: result_count_texts build_doc_texts [OF assms])

lemma build_doc_title:
  assumes "format_ru_date (sign_date args) = Inr sign_phrase"
    and "format_ru_date (agreement_date args) = Inr agreement_phrase"
    and "renderable args reference"
  shows "map_sum id hd (result_texts (build_doc args reference)) =
    Inr (title_prefix @ stored_text (ds_no args))"
  by (simp add: build_doc_texts [OF assms] stored_text_id title_prefix_def)

text \<open>The example inputs, evaluated.\<close>

lemma example_dates:
  "format_ru_date (sign_date example_args) =
     Inr [171, 49, 53, 187, 32, 1084, 1072, 1088, 1090, 1072, 32, 50, 48, 50, 52,
          32, 1075, 1086, 1076, 1072]"
  "format_ru_date (agreement_date example_args) =
     Inr [171, 48, 49, 187, 32, 1089, 1077, 1085, 1090, 1103, 1073, 1088, 1103, 32, 50, 48,
          50, 51, 32, 1075, 1086, 1076, 1072]"
  by (simp_all add: example_args_def format_ru_date_def ascii_def MONTHS_def)

lemma example_renderable:
  "renderable example_args (example_reference [8212, 32, 97, 10, 8212, 32, 98])"
  "renderable example_args (example_reference [8212, 32, 97])"
  "renderable example_args (example_reference [160, 74])"
  "renderable (example_args\<lparr>ds_no := [49, 13, 50]\<rparr>) (example_reference [8212, 32, 97])"
  by (simp_all add: renderable_def example_args_def example_reference_def ascii_def
      xml_char_def)

lemma example_bullets:
  "bullet_items (clause_text (example_reference [8212, 32, 97, 10, 8212, 32, 98]) 9
     fallback_bullets) = [[97], [98]]"
  "bullet_items (clause_text (example_reference [8212, 32, 97]) 9 fallback_bullets) = [[97]]"
  by (simp_all add: clause_text_def example_reference_def clean_def replace_def
      bullet_items_def strip_chars_def strip_def strip_by_def py_isspace_def)

text \<open>Whenever \<open>build_doc\<close> returns a document, this is its sixth paragraph.\<close>

lemma build_doc_returns:
  assumes "build_doc args reference = Inr doc"
  shows "\<exists>phrase. format_ru_date (agreement_date args) = Inr phrase
    \<and> paragraph_text (paragraphs doc ! 5) =
      stored_text (p11_opening @ agreement_label_genitive (agreement_kind args)
        @ [32, 8470, 8239] @ agreement_no args @ [32, 1086, 1090, 32] @ drop_last 5 phrase
        @ p11_closing)"
  using assms unfolding build_doc_def Let_def
  by (auto simp: err_bind_Inr_iff add_para_eq add_two_col_eq add_items_eq new_run_def
      getitem_extract_template_blocks heading_kw_def body_kw_def add_para_defaults_def
      add_two_col_defaults_def paragraph_text_def new_document_def set_doc_defaults_def
      new_paragraph_def split: if_splits)

text \<open>
  Claim C5. For a date whose three parts hold no dot and whose month is not a key of
  \<open>MONTHS\<close>, \<open>format_ru_date\<close> raises \<open>KeyError\<close> and returns no phrase; \<open>build_doc\<close>
  does not catch it: with such a signing date or such an agreement date it ends in an
  error, and with such a signing date in this very \<open>KeyError\<close> whenever the title and the
  subtitle, which are written first, can be written.
\<close>

theorem format_ru_date_unknown_month:
  assumes "month \<notin> fst ` set MONTHS"
    and "46 \<notin> set day" and "46 \<notin> set month" and "46 \<notin> set year"
  shows "format_ru_date (day @ [46] @ month @ [46] @ year) = Inl (KeyError month)
         \<and> isl (build_doc (args\<lparr>sign_date := day @ [46] @ month @ [46] @ year\<rparr>) reference)
         \<and> (xml_text (ds_no args) \<and> xml_text (agreement_no args)
              \<and> xml_text (agreement_date args) \<longrightarrow>
             build_doc (args\<lparr>sign_date := day @ [46] @ month @ [46] @ year\<rparr>) reference =
               Inl (KeyError month))
         \<and> isl (build_doc (args\<lparr>agreement_date := day @ [46] @ month @ [46] @ year\<rparr>) reference)"
proof -
  let ?d = "day @ [46] @ month @ [46] @ year"
  have "split 46 ?d = [day, month, year]"
    using assms by (intro split_three) auto
  moreover have "map_of MONTHS month = None"
    using assms(1) by (simp add: map_of_eq_None_iff)
  ultimately have d: "format_ru_date ?d = Inl (KeyError month)"
    by (simp add: format_ru_date_def del: map_of_eq_None_iff)
  have "isl (build_doc (args\<lparr>sign_date := ?d\<rparr>) reference)"
    using d by (intro build_doc_sign_fails [where e = "KeyError month"]) simp
  moreover have "build_doc (args\<lparr>sign_date := ?d\<rparr>) reference = Inl (KeyError month)"
    if "xml_text (ds_no args)" "xml_text (agreement_no args)" "xml_text (agreement_date args)"
    using d that by (intro build_doc_sign_error) simp_all
  moreover have "isl (build_doc (args\<lparr>agreement_date := ?d\<rparr>) reference)"
    using d by (intro build_doc_agreement_fails [where e = "KeyError month"]) simp
  ultimately show ?thesis
    using d by simp
qed

theorem format_ru_date_unknown_month_witness:
  "ascii ''13'' \<notin> fst ` set MONTHS
   \<and> 46 \<notin> set (ascii ''15'') \<and> 46 \<notin> set (ascii ''13'') \<and> 46 \<notin> set (ascii ''2024'')
   \<and> xml_text (ds_no example_args) \<and> xml_text (agreement_no example_args)
   \<and> xml_text (agreement_date example_args)
   \<and> format_ru_date (ascii ''15.13.2024'') = Inl (KeyError (ascii ''13''))
   \<and> build_doc (example_args\<lparr>sign_date := ascii ''15.13.2024''\<rparr>) [] =
       Inl (KeyError (ascii ''13''))
   \<and> isl (build_doc (example_args\<lparr>agreement_date := ascii ''15.13.2024''\<rparr>) [])"
proof -
  have x: "xml_text (ds_no example_args)" "xml_text (agreement_no example_args)"
    "xml_text (agreement_date example_args)"
    by (simp_all add: example_args_def ascii_def xml_char_def)
  have h: "ascii ''13'' \<notin> fst ` set MONTHS" "46 \<notin> set (ascii ''15'')"
    "46 \<notin> set (ascii ''13'')" "46 \<notin> set (ascii ''2024'')"
    by (simp_all add: MONTHS_def ascii_def)
  from format_ru_date_unknown_month [OF h, of example_args "[]"] x h show ?thesis
    by (simp add: ascii_def)
qed

text \<open>
  Claim C8, as amended. For a parameter set whose two dates format and whose texts hold
  only characters XML can hold, and any reference document of such paragraphs, the
  output document consists of the title, the subtitle, the city and date line, the
  introduction, heading 1 with paragraphs 1.1 and 1.2, the bullet items, headings 2 to 4
  with their paragraphs, heading 5 and the five signature rows, in that order, each text
  read back with its carriage returns as line feeds. Their number is 24 plus the number
  of bullet items of the bullets clause, which is 4 for the fallback bullets. The text of
  the first paragraph is the title literal followed by the document number as it reads
  back, which is the document number itself exactly when it holds no carriage return.
\<close>

theorem build_doc_paragraphs:
  assumes "format_ru_date (sign_date args) = Inr sign_phrase"
    and "format_ru_date (agreement_date args) = Inr agreement_phrase"
    and "renderable args reference"
  shows "result_texts (build_doc args reference) = Inr (map stored_text (
     [title_prefix @ ds_no args,
      [1082, 32] @ agreement_label_dative (agreement_kind args) @ [32, 8470, 32]
        @ agreement_no args @ [32, 1086, 1090, 32] @ agreement_date args @ [46],
      city args @ [9] @ sign_phrase,
      intro_agent @ principal_full args @ intro_in_person @ principal_position_intro args
        @ [32] @ principal_signer_full args @ [44, 32] @ acting_word args @ intro_basis
        @ ds_no args @ intro_closing,
      clause_text reference 6 fallback_h1,
      p11_opening @ agreement_label_genitive (agreement_kind args) @ [32, 8470, 8239]
        @ agreement_no args @ [32, 1086, 1090, 32] @ drop_last 5 agreement_phrase
        @ p11_closing,
      clause_text reference 8 fallback_p12]
     @ map ((@) [8226, 32]) (bullet_items (clause_text reference 9 fallback_bullets))
     @ [clause_text reference 10 fallback_h2, clause_text reference 11 fallback_p21,
        clause_text reference 12 fallback_p22, clause_text reference 13 fallback_p23,
        clause_text reference 14 fallback_h3, clause_text reference 15 fallback_p31,
        clause_text reference 16 fallback_p32, clause_text reference 17 fallback_h4,
        clause_text reference 18 fallback_p41, clause_text reference 19 fallback_p42,
        clause_text reference 20 fallback_p43, clause_text reference 21 fallback_h5,
        sig_principal @ [9] @ sig_agent,
        principal_short args @ [9] @ sig_agent_name,
        principal_position_sign args @ [9],
        sig_line @ [9] @ sig_line,
        principal_signer_short args @ [9] @ sig_agent_short]))
    \<and> result_count (build_doc args reference) =
      Inr (24 + length (bullet_items (clause_text reference 9 fallback_bullets)))
    \<and> length (bullet_items fallback_bullets) = 4
    \<and> map_sum id hd (result_texts (build_doc args reference)) =
      Inr (title_prefix @ stored_text (ds_no args))
    \<and> (stored_text (ds_no args) = ds_no args) = (13 \<notin> set (ds_no args))"
proof -
  have "length (bullet_items fallback_bullets) = 4"
    unfolding fallback_bullets_items_eq by (simp add: fallback_bullets_def)
  then show ?thesis
    using build_doc_texts [OF assms] build_doc_count [OF assms] build_doc_title [OF assms]
    by (simp add: stored_text_id_iff)
qed

theorem build_doc_paragraphs_witness:
  "format_ru_date (sign_date example_args) =
     Inr [171, 49, 53, 187, 32, 1084, 1072, 1088, 1090, 1072, 32, 50, 48, 50, 52,
          32, 1075, 1086, 1076, 1072]
   \<and> format_ru_date (agreement_date example_args) =
     Inr [171, 48, 49, 187, 32, 1089, 1077, 1085, 1090, 1103, 1073, 1088, 1103, 32, 50, 48,
          50, 51, 32, 1075, 1086, 1076, 1072]
   \<and> renderable example_args (example_reference [8212, 32, 97, 10, 8212, 32, 98])
   \<and> result_count (build_doc example_args
        (example_reference [8212, 32, 97, 10, 8212, 32, 98])) = Inr 26
   \<and> map_sum id hd (result_texts (build_doc example_args
        (example_reference [8212, 32, 97, 10, 8212, 32, 98]))) = Inr (title_prefix @ [49])"
proof -
  note t = build_doc_paragraphs [OF example_dates example_renderable(1)]
  from t have "result_count (build_doc example_args
      (example_reference [8212, 32, 97, 10, 8212, 32, 98])) =
    Inr (24 + length (bullet_items
      (clause_text (example_reference [8212, 32, 97, 10, 8212, 32, 98]) 9 fallback_bullets)))"
    by blast
  then have c: "result_count (build_doc example_args
      (example_reference [8212, 32, 97, 10, 8212, 32, 98])) = Inr 26"
    by (simp add: example_bullets)
  from t have "map_sum id hd (result_texts (build_doc example_args
      (example_reference [8212, 32, 97, 10, 8212, 32, 98]))) =
    Inr (title_prefix @ stored_text (ds_no example_args))"
    by blast
  moreover have "stored_text (ds_no example_args) = [49]"
    by (simp add: example_args_def ascii_def)
  ultimately have h: "map_sum id hd (result_texts (build_doc example_args
      (example_reference [8212, 32, 97, 10, 8212, 32, 98]))) = Inr (title_prefix @ [49])"
    by simp
  from example_dates example_renderable(1) c h show ?thesis
    by (intro conjI) assumption+
qed

text \<open>
  Claim C8 as stated fails. The number of paragraphs is not fixed: for the same parameter
  set, two reference documents of 22 paragraphs that differ in the bullet block give 26
  and 25 paragraphs. The title is not always the literal followed by the document number:
  a carriage return in the number reads back as a line feed, and a form feed in it ends
  the run in \<open>ValueError\<close>.
\<close>

theorem build_doc_paragraphs_counterexample:
  "result_count (build_doc example_args
     (example_reference [8212, 32, 97, 10, 8212, 32, 98])) = Inr 26
   \<and> result_count (build_doc example_args (example_reference [8212, 32, 97])) = Inr 25
   \<and> length (example_reference [8212, 32, 97, 10, 8212, 32, 98]) = 22
   \<and> length (example_reference [8212, 32, 97]) = 22
   \<and> map_sum id hd (result_texts (build_doc (example_args\<lparr>ds_no := [49, 13, 50]\<rparr>)
        (example_reference [8212, 32, 97]))) = Inr (title_prefix @ [49, 10, 50])
   \<and> build_doc (example_args\<lparr>ds_no := [49, 12]\<rparr>) (example_reference [8212, 32, 97]) =
        Inl ValueError"
proof -
  have d: "format_ru_date (sign_date (example_args\<lparr>ds_no := [49, 13, 50]\<rparr>)) =
      Inr [171, 49, 53, 187, 32, 1084, 1072, 1088, 1090, 1072, 32, 50, 48, 50, 52,
           32, 1075, 1086, 1076, 1072]"
    "format_ru_date (agreement_date (example_args\<lparr>ds_no := [49, 13, 50]\<rparr>)) =
      Inr [171, 48, 49, 187, 32, 1089, 1077, 1085, 1090, 1103, 1073, 1088, 1103, 32, 50, 48,
           50, 51, 32, 1075, 1086, 1076, 1072]"
    using example_dates by simp_all
  have "build_doc (example_args\<lparr>ds_no := [49, 12]\<rparr>) (example_reference [8212, 32, 97]) =
      Inl ValueError"
    unfolding build_doc_def Let_def
    by (simp add: add_para_eq add_para_defaults_def xml_char_def)
  then show ?thesis
    by (simp add: build_doc_count [OF example_dates example_renderable(1)]
        build_doc_count [OF example_dates example_renderable(2)]
        build_doc_title [OF d example_renderable(4)] example_bullets)
      (simp add: example_reference_def)
qed

text \<open>The extractor reads no paragraph at index 7.\<close>

lemma extract_template_blocks_index_7:
  "extract_template_blocks (reference[7 := t]) = extract_template_blocks reference"
  by (simp add: extract_template_blocks_def Let_def map_update)

lemma format_ru_date_closing:
  assumes "format_ru_date d = Inr phrase"
  shows "drop_last 5 phrase @ [32, 1075, 1086, 1076, 1072] = phrase"
proof -
  from assms obtain body where "phrase = body @ [32, 1075, 1086, 1076, 1072]"
    by (auto simp: format_ru_date_def split: list.splits option.splits)
  then show ?thesis
    by (simp add: drop_last_def)
qed

text \<open>
  Claim C10. Whenever \<open>build_doc\<close> returns a document, for any parameter set and any
  reference document, the text of its paragraph 1.1 (the sixth paragraph) is the fixed
  sentence with the genitive label of the agreement kind, the agreement number and the
  phrase of the agreement date without its closing word, as a run reads it back; no
  paragraph of the reference document occurs in it, and replacing the paragraph at index
  7 of the reference document leaves the clause map unchanged.
\<close>

theorem paragraph_11_from_parameters:
  assumes "build_doc args reference = Inr doc"
  shows "(\<exists>phrase. format_ru_date (agreement_date args) = Inr phrase
      \<and> drop_last 5 phrase @ [32, 1075, 1086, 1076, 1072] = phrase
      \<and> paragraph_text (paragraphs doc ! 5) =
        stored_text (p11_opening @ agreement_label_genitive (agreement_kind args)
          @ [32, 8470, 8239] @ agreement_no args @ [32, 1086, 1090, 32] @ drop_last 5 phrase
          @ p11_closing))
    \<and> extract_template_blocks (reference[7 := t]) = extract_template_blocks reference"
  using build_doc_returns [OF assms] format_ru_date_closing extract_template_blocks_index_7
  by blast

theorem paragraph_11_from_parameters_witness:
  "\<not> isl (build_doc example_args (example_reference [160, 74]))
   \<and> map_sum id (\<lambda>doc. paragraph_text (paragraphs doc ! 5))
       (build_doc example_args (example_reference [160, 74])) =
     Inr (p11_opening @ agreement_label_genitive (ascii ''agent'') @ [32, 8470, 8239]
        @ ascii ''AG-092023-1880'' @ [32, 1086, 1090, 32]
        @ [171, 48, 49, 187, 32, 1089, 1077, 1085, 1090, 1103, 1073, 1088, 1103, 32, 50, 48,
           50, 51]
        @ p11_closing)
   \<and> extract_template_blocks ((example_reference [160, 74])[7 := [88]]) =
     extract_template_blocks (example_reference [160, 74])"
proof -
  from build_doc_texts [OF example_dates example_renderable(3)]
  obtain doc where doc: "build_doc example_args (example_reference [160, 74]) = Inr doc"
    by (cases "build_doc example_args (example_reference [160, 74])")
      (simp_all add: result_texts_def)
  from paragraph_11_from_parameters [OF doc, of "[88]"] obtain phrase
    where "format_ru_date (agreement_date example_args) = Inr phrase"
      and p: "paragraph_text (paragraphs doc ! 5) =
        stored_text (p11_opening @ agreement_label_genitive (agreement_kind example_args)
          @ [32, 8470, 8239] @ agreement_no example_args @ [32, 1086, 1090, 32]
          @ drop_last 5 phrase @ p11_closing)"
      and e: "extract_template_blocks ((example_reference [160, 74])[7 := [88]]) =
        extract_template_blocks (example_reference [160, 74])"
    by blast
  then have "phrase = [171, 48, 49, 187, 32, 1089, 1077, 1085, 1090, 1103, 1073, 1088, 1103,
      32, 50, 48, 50, 51, 32, 1075, 1086, 1076, 1072]"
    using example_dates(2) by simp
  with p have "paragraph_text (paragraphs doc ! 5) =
      p11_opening @ agreement_label_genitive (ascii ''agent'') @ [32, 8470, 8239]
        @ ascii ''AG-092023-1880'' @ [32, 1086, 1090, 32]
        @ [171, 48, 49, 187, 32, 1089, 1077, 1085, 1090, 1103, 1073, 1088, 1103, 32, 50, 48,
           50, 51]
        @ p11_closing"
    by (simp add: example_args_def drop_last_def stored_text_id p11_opening_def
        p11_closing_def ascii_def)
  with doc e show ?thesis
    by simp
qed

end
